theory Spec2Isabelle
  imports Main "HOL-Library.AList"
begin

section \<open>Python values and errors\<close>

text \<open>
  The contracts of \<^verbatim>\<open>promptflow/contracts/flow.py\<close> work on an already parsed
  YAML/JSON tree. Such a tree is a Python value: \<^verbatim>\<open>None\<close>, a bool, an int, a
  str, a list or a dict with string keys (kept as an association list, in insertion
  order; the keys of a dict are distinct). Floats do not occur in any function modelled here and are left out.
  A Python \<^verbatim>\<open>str\<close> is a \<^typ>\<open>string\<close>, one \<^typ>\<open>char\<close> for each of its
  characters; every test the code makes on characters is on the ASCII characters
  \<^verbatim>\<open>$ { } .\<close>.
\<close>

datatype pyval =
    PNone
  | PBool bool
  | PInt int
  | PStr string
  | PList "pyval list"
  | PDict "(string \<times> pyval) list"

text \<open>Python truthiness (\<^verbatim>\<open>if v:\<close>, \<^verbatim>\<open>a or b\<close>) of such a value.\<close>

fun truthy :: "pyval \<Rightarrow> bool" where
  "truthy PNone = False"
| "truthy (PBool b) = b"
| "truthy (PInt i) = (i \<noteq> 0)"
| "truthy (PStr s) = (s \<noteq> [])"
| "truthy (PList xs) = (xs \<noteq> [])"
| "truthy (PDict kvs) = (kvs \<noteq> [])"

text \<open>
  Every \<^verbatim>\<open>raise\<close> of the source, and every exception a built-in operation of
  the source throws, is a value. \<^verbatim>\<open>ValueError\<close> carries the offending text;
  \<^verbatim>\<open>NodeConditionConflict\<close> carries the name of the offending node (the source
  formats it into the message \<^verbatim>\<open>Node {name!r} can't have both skip and activate
  condition.\<close>).
\<close>

datatype error =
    ValueError string
  | KeyError string
  | TypeError
  | AttributeError
  | NodeConditionConflict pyval

subsection \<open>String operations of the source\<close>

definition startswith :: "string \<Rightarrow> string \<Rightarrow> bool" where
  "startswith s p = (take (length p) s = p)"

text \<open>\<^verbatim>\<open>"." in s\<close>\<close>

definition has_dot :: "string \<Rightarrow> bool" where
  "has_dot s = (CHR ''.'' \<in> set s)"

text \<open>
  \<^verbatim>\<open>s.split(".", 1)\<close> for a string that holds a dot: the text before the first
  dot and the text after it.
\<close>

definition split_first_dot :: "string \<Rightarrow> string \<times> string" where
  "split_first_dot s =
     (takeWhile (\<lambda>c. c \<noteq> CHR ''.'') s, drop 1 (dropWhile (\<lambda>c. c \<noteq> CHR ''.'') s))"

section \<open>Reference codec\<close>

datatype InputValueType = LITERAL | FLOW_INPUT | NODE_REFERENCE

definition FLOW_INPUT_PREFIX :: string where
  "FLOW_INPUT_PREFIX = ''flow.''"

definition FLOW_INPUT_PREFIXES :: "string list" where
  "FLOW_INPUT_PREFIXES = [FLOW_INPUT_PREFIX, ''inputs.'']"

text \<open>
  The dataclass \<^verbatim>\<open>InputAssignment\<close> and its subclass
  \<^verbatim>\<open>FlowInputAssignment\<close>, which adds the field \<^verbatim>\<open>prefix\<close>. An object of
  either class is a value of one datatype; the fields are \<^verbatim>\<open>value\<close>,
  \<^verbatim>\<open>value_type\<close>, \<^verbatim>\<open>section\<close> and \<^verbatim>\<open>property\<close>.
\<close>

datatype InputAssignment =
    InputAssignment (ia_value: pyval) (ia_value_type: InputValueType)
      (ia_section: string) (ia_property: string)
  | FlowInputAssignment (ia_value: pyval) (ia_value_type: InputValueType)
      (ia_section: string) (ia_property: string) (ia_prefix: string)

text \<open>
  \<^verbatim>\<open>FlowInputAssignment.is_flow_input\<close> and
  \<^verbatim>\<open>FlowInputAssignment.deserialize\<close>: both loops run over
  \<^verbatim>\<open>FLOW_INPUT_PREFIXES\<close> in order and stop at the first prefix that matches.
\<close>

definition is_flow_input :: "string \<Rightarrow> bool" where
  "is_flow_input input_value = list_ex (startswith input_value) FLOW_INPUT_PREFIXES"

definition FlowInputAssignment_deserialize :: "string \<Rightarrow> error + InputAssignment" where
  "FlowInputAssignment_deserialize v =
     (case find (startswith v) FLOW_INPUT_PREFIXES of
        Some p \<Rightarrow> Inr (FlowInputAssignment (PStr (drop (length p) v)) FLOW_INPUT [] [] p)
      | None \<Rightarrow> Inl (ValueError (''Unexpected flow input value '' @ v)))"

definition deserialize_node_reference :: "string \<Rightarrow> InputAssignment" where
  "deserialize_node_reference data =
     (if \<not> has_dot data then InputAssignment (PStr data) NODE_REFERENCE ''output'' []
      else
        let (node_name, port_name) = split_first_dot data in
        if \<not> has_dot port_name then InputAssignment (PStr node_name) NODE_REFERENCE port_name []
        else
          let (sec, prop) = split_first_dot port_name in
          InputAssignment (PStr node_name) NODE_REFERENCE sec prop)"

definition deserialize_reference :: "string \<Rightarrow> error + InputAssignment" where
  "deserialize_reference v =
     (if is_flow_input v then FlowInputAssignment_deserialize v
      else Inr (deserialize_node_reference v))"

text \<open>
  \<^verbatim>\<open>InputAssignment.deserialize\<close>. The argument is any value: the
  \<^verbatim>\<open>isinstance(value, str)\<close> test is the case distinction on \<^const>\<open>PStr\<close>.
  After the guard \<^verbatim>\<open>len(value) > 2\<close> the string \<^verbatim>\<open>value[1:]\<close> has at least
  two characters, so \<^verbatim>\<open>value[0]\<close> and \<^verbatim>\<open>value[-1]\<close> are its head and its
  last character and \<^verbatim>\<open>value[1:-1]\<close> drops both.
\<close>

fun InputAssignment_deserialize :: "pyval \<Rightarrow> error + InputAssignment" where
  "InputAssignment_deserialize (PStr s) =
     (if startswith s ''$'' \<and> length s > 2 then
        let v = drop 1 s in
        if hd v \<noteq> CHR ''{'' \<or> last v \<noteq> CHR ''}'' then Inr (InputAssignment (PStr s) LITERAL [] [])
        else deserialize_reference (butlast (drop 1 v))
      else Inr (InputAssignment (PStr s) LITERAL [] []))"
| "InputAssignment_deserialize v = Inr (InputAssignment v LITERAL [] [])"

text \<open>
  \<^verbatim>\<open>InputAssignment.serialize\<close>. Three things it calls are not part of the
  repository's sources and are parameters: \<^verbatim>\<open>ConnectionType.is_connection_value\<close>
  and \<^verbatim>\<open>ConnectionType.serialize_conn\<close> (module \<^verbatim>\<open>contracts.tool\<close>), and
  Python's \<^verbatim>\<open>str()\<close> on a value that is not a string, which the f-strings apply
  to \<^verbatim>\<open>self.value\<close>. A string is formatted as itself.
\<close>

record externals =
  is_connection_value :: "pyval \<Rightarrow> bool"
  serialize_conn :: "pyval \<Rightarrow> pyval"
  py_str :: "pyval \<Rightarrow> string"

fun format_value :: "externals \<Rightarrow> pyval \<Rightarrow> string" where
  "format_value ext (PStr s) = s"
| "format_value ext v = py_str ext v"

definition InputAssignment_serialize :: "externals \<Rightarrow> InputAssignment \<Rightarrow> pyval" where
  "InputAssignment_serialize ext a =
     (if ia_value_type a = FLOW_INPUT then
        PStr (''${'' @ FLOW_INPUT_PREFIX @ format_value ext (ia_value a) @ ''}'')
      else if ia_value_type a = NODE_REFERENCE then
        (if ia_property a \<noteq> [] then
           PStr (''${'' @ format_value ext (ia_value a) @ ''.'' @ ia_section a @ ''.''
                 @ ia_property a @ ''}'')
         else PStr (''${'' @ format_value ext (ia_value a) @ ''.'' @ ia_section a @ ''}''))
      else if is_connection_value ext (ia_value a) then serialize_conn ext (ia_value a)
      else ia_value a)"

text \<open>
  The spec's notion of two assignments being equivalent: same \<^verbatim>\<open>value_type\<close>,
  \<^verbatim>\<open>value\<close>, \<^verbatim>\<open>section\<close> and \<^verbatim>\<open>property\<close> (the recorded prefix of a
  flow input is not compared).
\<close>

definition equivalent_assignments :: "InputAssignment \<Rightarrow> InputAssignment \<Rightarrow> bool" where
  "equivalent_assignments a b =
     (ia_value_type a = ia_value_type b \<and> ia_value a = ia_value b \<and>
      ia_section a = ia_section b \<and> ia_property a = ia_property b)"

text \<open>An environment in which no value is a connection object.\<close>

definition no_connections :: externals where
  "no_connections = \<lparr>is_connection_value = (\<lambda>v. False), serialize_conn = (\<lambda>v. v),
     py_str = (\<lambda>v. [])\<rparr>"

section \<open>Nodes and conditions\<close>

subsection \<open>Operations on parsed trees\<close>

text \<open>
  A dict with string keys is an association list; \<^verbatim>\<open>d.get(k, default)\<close>,
  \<^verbatim>\<open>k in d\<close> and \<^verbatim>\<open>d[k]\<close> read it through \<^const>\<open>map_of\<close>. Exceptions that
  the source does not catch are results: \<^verbatim>\<open>x[k]\<close> raises \<^verbatim>\<open>KeyError\<close> on a
  dict without the key and \<^verbatim>\<open>TypeError\<close> on a value that is no dict (a string
  key subscripts neither a str nor a list, and \<^verbatim>\<open>None\<close>, bools and ints are not
  subscriptable); \<^verbatim>\<open>x.get\<close> and \<^verbatim>\<open>x.items\<close> raise
  \<^verbatim>\<open>AttributeError\<close> on a value that is no dict.
\<close>

definition dict_get :: "(string \<times> pyval) list \<Rightarrow> string \<Rightarrow> pyval \<Rightarrow> pyval" where
  "dict_get d k dflt = (case map_of d k of Some v \<Rightarrow> v | None \<Rightarrow> dflt)"

definition has_key :: "(string \<times> 'a) list \<Rightarrow> string \<Rightarrow> bool" where
  "has_key d k = (map_of d k \<noteq> None)"

fun subscript :: "pyval \<Rightarrow> string \<Rightarrow> error + pyval" where
  "subscript (PDict d) k = (case map_of d k of Some v \<Rightarrow> Inr v | None \<Rightarrow> Inl (KeyError k))"
| "subscript v k = Inl TypeError"

fun items_of :: "pyval \<Rightarrow> error + (string \<times> pyval) list" where
  "items_of (PDict d) = Inr d"
| "items_of v = Inl AttributeError"

text \<open>\<^verbatim>\<open>a or b\<close>\<close>

definition py_or :: "pyval \<Rightarrow> pyval \<Rightarrow> pyval" where
  "py_or a b = (if truthy a then a else b)"

text \<open>Sequencing of calls that may raise: the first exception ends the function.\<close>

definition bind_err :: "error + 'a \<Rightarrow> ('a \<Rightarrow> error + 'b) \<Rightarrow> error + 'b" where
  "bind_err m f = (case m of Inl e \<Rightarrow> Inl e | Inr x \<Rightarrow> f x)"

subsection \<open>Tool source and conditions\<close>

text \<open>
  Modelled from the spec: the enum \<^verbatim>\<open>ToolType\<close> of \<^verbatim>\<open>contracts/tool.py\<close> is
  not in the sources. The spec names the tool categories Prompt and LLM, the only two
  members the code of \<^verbatim>\<open>flow.py\<close> compares with; every other member is
  \<open>OtherToolType\<close> with its value. The conversion \<^verbatim>\<open>ToolType(x)\<close> of a tree value
  is a parameter of \<open>Node.deserialize\<close>; it raises \<^verbatim>\<open>ValueError\<close> on a value that
  is no member (\<^const>\<open>None\<close> here).
\<close>

datatype ToolType = LLM | PROMPT | OtherToolType string

text \<open>
  The fields of the dataclasses hold whatever the tree holds: Python does not check
  the annotations. A field is a \<^typ>\<open>pyval\<close> unless the code builds its value.
  Field names carry the name of their class, since several classes share
  \<^verbatim>\<open>name\<close>, \<^verbatim>\<open>type\<close>, \<^verbatim>\<open>tool\<close> and \<^verbatim>\<open>inputs\<close>.
\<close>

record ToolSource =
  source_type :: pyval
  source_tool :: pyval
  source_path :: pyval

fun ToolSource_deserialize :: "pyval \<Rightarrow> error + ToolSource" where
  "ToolSource_deserialize (PDict d) =
     Inr \<lparr>source_type = dict_get d ''type'' (PStr ''code''),
          source_tool = (if has_key d ''tool'' then dict_get d ''tool'' PNone else PNone),
          source_path = (if has_key d ''path'' then dict_get d ''path'' PNone else PNone)\<rparr>"
| "ToolSource_deserialize v = Inl AttributeError"

record ActivateCondition =
  activate_condition :: InputAssignment
  activate_condition_value :: pyval

definition ActivateCondition_deserialize :: "pyval \<Rightarrow> error + ActivateCondition" where
  "ActivateCondition_deserialize data =
     bind_err (subscript data ''when'') (\<lambda>w.
     bind_err (InputAssignment_deserialize w) (\<lambda>c.
     bind_err (subscript data ''is'') (\<lambda>i.
     Inr \<lparr>activate_condition = c, activate_condition_value = i\<rparr>)))"

record SkipCondition =
  skip_condition :: InputAssignment
  skip_condition_value :: pyval
  skip_return_value :: InputAssignment

definition SkipCondition_deserialize :: "pyval \<Rightarrow> error + SkipCondition" where
  "SkipCondition_deserialize data =
     bind_err (subscript data ''when'') (\<lambda>w.
     bind_err (InputAssignment_deserialize w) (\<lambda>c.
     bind_err (subscript data ''is'') (\<lambda>i.
     bind_err (subscript data ''return'') (\<lambda>r.
     bind_err (InputAssignment_deserialize r) (\<lambda>rv.
     Inr \<lparr>skip_condition = c, skip_condition_value = i, skip_return_value = rv\<rparr>)))))"

subsection \<open>Node\<close>

record Node =
  node_name :: pyval
  node_tool :: pyval
  node_inputs :: "(string \<times> InputAssignment) list"
  node_comment :: pyval
  node_api :: pyval
  node_provider :: pyval
  node_module :: pyval
  node_connection :: pyval
  node_aggregation :: pyval
  node_enable_cache :: pyval
  node_use_variants :: pyval
  node_source :: "ToolSource option"
  node_type :: "ToolType option"
  node_skip :: "SkipCondition option"
  node_activate :: "ActivateCondition option"

text \<open>
  The dict comprehension \<^verbatim>\<open>{name: InputAssignment.deserialize(v) for name, v in
  items}\<close> over the items of the \<^verbatim>\<open>inputs\<close> dict, in order.
\<close>

fun deserialize_inputs :: "(string \<times> pyval) list \<Rightarrow> error + (string \<times> InputAssignment) list" where
  "deserialize_inputs [] = Inr []"
| "deserialize_inputs ((name, v) # rest) =
     bind_err (InputAssignment_deserialize v) (\<lambda>a.
     bind_err (deserialize_inputs rest) (\<lambda>as. Inr ((name, a) # as)))"

text \<open>
  \<^verbatim>\<open>if key in data: node.field = Class.deserialize(data[key])\<close>: the field stays
  \<^verbatim>\<open>None\<close> when the key is absent.
\<close>

definition deserialize_if_present ::
  "(string \<times> pyval) list \<Rightarrow> string \<Rightarrow> (pyval \<Rightarrow> error + 'a) \<Rightarrow> error + 'a option" where
  "deserialize_if_present data k f =
     (case map_of data k of None \<Rightarrow> Inr None
      | Some v \<Rightarrow> bind_err (f v) (\<lambda>x. Inr (Some x)))"

definition to_ToolType :: "(pyval \<Rightarrow> ToolType option) \<Rightarrow> pyval \<Rightarrow> error + ToolType" where
  "to_ToolType ToolType_of v =
     (case ToolType_of v of Some t \<Rightarrow> Inr t | None \<Rightarrow> Inl (ValueError ''not a valid ToolType''))"

text \<open>
  \<^verbatim>\<open>Node.deserialize\<close>, statement by statement: the constructor call with its
  \<^verbatim>\<open>data.get\<close> defaults, the four optional fields in the order \<^verbatim>\<open>source\<close>,
  \<^verbatim>\<open>type\<close>, \<^verbatim>\<open>skip\<close>, \<^verbatim>\<open>activate\<close>, and last the test
  \<^verbatim>\<open>if node.skip and node.activate\<close>. A condition object is an instance of a
  dataclass and so is true when it is not \<^verbatim>\<open>None\<close>.
\<close>

definition Node_deserialize ::
  "(pyval \<Rightarrow> ToolType option) \<Rightarrow> (string \<times> pyval) list \<Rightarrow> error + Node" where
  "Node_deserialize ToolType_of data =
     bind_err (items_of (py_or (dict_get data ''inputs'' PNone) (PDict []))) (\<lambda>items.
     bind_err (deserialize_inputs items) (\<lambda>inputs.
     bind_err (deserialize_if_present data ''source'' ToolSource_deserialize) (\<lambda>src.
     bind_err (deserialize_if_present data ''type'' (to_ToolType ToolType_of)) (\<lambda>typ.
     bind_err (deserialize_if_present data ''skip'' SkipCondition_deserialize) (\<lambda>skp.
     bind_err (deserialize_if_present data ''activate'' ActivateCondition_deserialize) (\<lambda>act.
     let node = \<lparr>node_name = dict_get data ''name'' PNone,
                 node_tool = dict_get data ''tool'' PNone,
                 node_inputs = inputs,
                 node_comment = dict_get data ''comment'' (PStr []),
                 node_api = dict_get data ''api'' PNone,
                 node_provider = dict_get data ''provider'' PNone,
                 node_module = dict_get data ''module'' PNone,
                 node_connection = dict_get data ''connection'' PNone,
                 node_aggregation = py_or (dict_get data ''aggregation'' (PBool False))
                                          (dict_get data ''reduce'' (PBool False)),
                 node_enable_cache = dict_get data ''enable_cache'' (PBool False),
                 node_use_variants = dict_get data ''use_variants'' (PBool False),
                 node_source = src, node_type = typ, node_skip = skp, node_activate = act\<rparr>
     in if skp \<noteq> None \<and> act \<noteq> None then Inl (NodeConditionConflict (node_name node))
        else Inr node))))))"

text \<open>
  \<^verbatim>\<open>Node.serialize\<close>. \<^verbatim>\<open>dataclasses.asdict\<close> with the dict factory that drops
  false values is library code and a parameter: \<open>asdict\<close> is the dict it returns for the
  node. The method then sets the key \<^verbatim>\<open>inputs\<close> and, for a node whose
  \<^verbatim>\<open>aggregation\<close> is true, the keys \<^verbatim>\<open>aggregation\<close> and \<^verbatim>\<open>reduce\<close>.
  Setting a key of a dict replaces the value where the key is, or adds the key at the
  end (\<^const>\<open>AList.update\<close>).
\<close>

definition Node_serialize ::
  "externals \<Rightarrow> (Node \<Rightarrow> (string \<times> pyval) list) \<Rightarrow> Node \<Rightarrow> (string \<times> pyval) list" where
  "Node_serialize ext asdict node =
     (let data = asdict node;
          data = AList.update ''inputs''
                   (PDict (map (\<lambda>(name, i). (name, InputAssignment_serialize ext i)) (node_inputs node)))
                   data
      in if truthy (node_aggregation node)
         then AList.update ''reduce'' (PBool True) (AList.update ''aggregation'' (PBool True) data)
         else data)"

text \<open>
  The parts of a node tree deserialize: the \<^verbatim>\<open>inputs\<close> value is false or a dict,
  and \<^verbatim>\<open>source\<close>, \<^verbatim>\<open>type\<close>, \<^verbatim>\<open>skip\<close> and \<^verbatim>\<open>activate\<close>, where
  present, are read without an exception.
\<close>

definition fields_deserialize :: "(pyval \<Rightarrow> ToolType option) \<Rightarrow> (string \<times> pyval) list \<Rightarrow> bool" where
  "fields_deserialize T data =
     ((\<exists>items. items_of (py_or (dict_get data ''inputs'' PNone) (PDict [])) = Inr items) \<and>
      (\<exists>s. deserialize_if_present data ''source'' ToolSource_deserialize = Inr s) \<and>
      (\<exists>t. deserialize_if_present data ''type'' (to_ToolType T) = Inr t) \<and>
      (\<exists>s. deserialize_if_present data ''skip'' SkipCondition_deserialize = Inr s) \<and>
      (\<exists>a. deserialize_if_present data ''activate'' ActivateCondition_deserialize = Inr a))"

section \<open>Flows\<close>

subsection \<open>Objects\<close>

text \<open>
  Nodes are objects: \<^verbatim>\<open>_apply_default_node_variant\<close> assigns to the
  \<^verbatim>\<open>name\<close> of a node that the variant table holds, and
  \<^verbatim>\<open>_apply_node_overrides\<close> assigns to fields of the nodes of the flow. A node
  is therefore a reference into a heap of node objects; the node list of a flow and the
  variants of the table hold references, and a function that assigns to a node returns
  the heap it leaves behind next to its result or its exception.
\<close>

type_synonym ref = nat

type_synonym heap = "ref \<Rightarrow> Node"

record NodeVariant =
  variant_node :: ref
  variant_description :: pyval

record NodeVariants =
  default_variant_id :: pyval
  variants :: "(string \<times> NodeVariant) list"

text \<open>
  Modelled from the spec: the dataclass \<^verbatim>\<open>Tool\<close> of \<^verbatim>\<open>contracts/tool.py\<close> is
  not in the sources. A tool has a name and an input signature that declares, for each
  input name, its acceptable type tags; a tag is the text that
  \<^verbatim>\<open>typ.value if isinstance(typ, Enum) else typ\<close> gives.
\<close>

record Tool =
  tool_name :: string
  tool_inputs :: "(string \<times> string list) list"

text \<open>
  The dataclass \<^verbatim>\<open>Flow\<close>. Its fields \<^verbatim>\<open>inputs\<close> and \<^verbatim>\<open>outputs\<close> are
  read by none of the methods below and are left out. \<^verbatim>\<open>node_variants\<close> is
  \<^verbatim>\<open>None\<close> or a dict.
\<close>

record Flow =
  flow_id :: pyval
  flow_name :: pyval
  flow_nodes :: "ref list"
  flow_tools :: "Tool list"
  flow_node_variants :: "(string \<times> NodeVariants) list option"

subsection \<open>Dict lookup by a value\<close>

text \<open>
  \<^verbatim>\<open>d.get(key)\<close> for a dict with string keys and any key: a list or a dict is
  not hashable and raises \<^verbatim>\<open>TypeError\<close>, a string is looked up, and every other
  value equals no string.
\<close>

fun hashable :: "pyval \<Rightarrow> bool" where
  "hashable (PList xs) = False"
| "hashable (PDict kvs) = False"
| "hashable v = True"

fun py_dict_get :: "(string \<times> 'a) list \<Rightarrow> pyval \<Rightarrow> error + 'a option" where
  "py_dict_get d (PStr k) = Inr (map_of d k)"
| "py_dict_get d (PList xs) = Inl TypeError"
| "py_dict_get d (PDict kvs) = Inl TypeError"
| "py_dict_get d v = Inr None"

subsection \<open>Default variants\<close>

text \<open>
  \<^verbatim>\<open>Flow._apply_default_node_variant\<close>. An instance of \<^verbatim>\<open>NodeVariants\<close> or
  \<^verbatim>\<open>NodeVariant\<close> is true, so \<^verbatim>\<open>if not node_variant\<close> tests for
  \<^verbatim>\<open>None\<close>; \<^verbatim>\<open>if not node_variants\<close> is true for \<^verbatim>\<open>None\<close> and for the
  empty dict.
\<close>

definition apply_default_node_variant ::
  "ref \<Rightarrow> (string \<times> NodeVariants) list option \<Rightarrow> heap \<Rightarrow> (error + ref) \<times> heap" where
  "apply_default_node_variant node node_variants h =
     (case node_variants of
        None \<Rightarrow> (Inr node, h)
      | Some nvs \<Rightarrow>
          if nvs = [] then (Inr node, h)
          else
            (case py_dict_get nvs (node_name (h node)) of
               Inl e \<Rightarrow> (Inl e, h)
             | Inr None \<Rightarrow> (Inr node, h)
             | Inr (Some node_variant) \<Rightarrow>
                 (case py_dict_get (variants node_variant) (default_variant_id node_variant) of
                    Inl e \<Rightarrow> (Inl e, h)
                  | Inr None \<Rightarrow> (Inr node, h)
                  | Inr (Some default_variant) \<Rightarrow>
                      (Inr (variant_node default_variant),
                       h(variant_node default_variant :=
                           (h (variant_node default_variant))
                             \<lparr>node_name := node_name (h node)\<rparr>)))))"

text \<open>
  The element expression of the list comprehensions in
  \<^verbatim>\<open>_apply_default_node_variants\<close> and \<^verbatim>\<open>get_connection_names\<close>:
  \<^verbatim>\<open>self._apply_default_node_variant(node, self.node_variants) if node.use_variants
  else node\<close>, and the comprehension itself, which evaluates it for the nodes in order.
\<close>

definition resolve_variant ::
  "ref \<Rightarrow> (string \<times> NodeVariants) list option \<Rightarrow> heap \<Rightarrow> (error + ref) \<times> heap" where
  "resolve_variant node node_variants h =
     (if truthy (node_use_variants (h node)) then apply_default_node_variant node node_variants h
      else (Inr node, h))"

fun resolve_nodes ::
  "ref list \<Rightarrow> (string \<times> NodeVariants) list option \<Rightarrow> heap \<Rightarrow> (error + ref list) \<times> heap" where
  "resolve_nodes [] node_variants h = (Inr [], h)"
| "resolve_nodes (node # rest) node_variants h =
     (case resolve_variant node node_variants h of
        (Inl e, h1) \<Rightarrow> (Inl e, h1)
      | (Inr n, h1) \<Rightarrow>
          (case resolve_nodes rest node_variants h1 of
             (Inl e, h2) \<Rightarrow> (Inl e, h2)
           | (Inr ns, h2) \<Rightarrow> (Inr (n # ns), h2)))"

definition apply_default_node_variants :: "Flow \<Rightarrow> heap \<Rightarrow> (error + Flow) \<times> heap" where
  "apply_default_node_variants flow h =
     (case resolve_nodes (flow_nodes flow) (flow_node_variants flow) h of
        (Inl e, h1) \<Rightarrow> (Inl e, h1)
      | (Inr ns, h1) \<Rightarrow> (Inr (flow\<lparr>flow_nodes := ns\<rparr>), h1))"

subsection \<open>Lookup of nodes and tools\<close>

text \<open>
  \<^verbatim>\<open>get_node\<close> and \<^verbatim>\<open>get_tool\<close>: the first element whose name equals the
  argument. \<^verbatim>\<open>get_node\<close> is called with a string; \<^verbatim>\<open>get_tool\<close> with the
  \<^verbatim>\<open>tool\<close> field of a node.
\<close>

definition get_node :: "Flow \<Rightarrow> heap \<Rightarrow> string \<Rightarrow> ref option" where
  "get_node flow h name = find (\<lambda>n. node_name (h n) = PStr name) (flow_nodes flow)"

definition get_tool :: "Flow \<Rightarrow> pyval \<Rightarrow> Tool option" where
  "get_tool flow name = find (\<lambda>t. PStr (tool_name t) = name) (flow_tools flow)"

subsection \<open>Connection names\<close>

text \<open>
  \<^verbatim>\<open>str.lower\<close> on the ASCII letters, which is what the type tags are written in.
\<close>

definition lower_char :: "char \<Rightarrow> char" where
  "lower_char c =
     (let n = (of_char c :: nat) in if 65 \<le> n \<and> n \<le> 90 then char_of (n + 32) else c)"

definition lower :: "string \<Rightarrow> string" where
  "lower s = map lower_char s"

text \<open>
  \<^verbatim>\<open>Flow._get_connection_name_from_tool\<close>. The set \<^verbatim>\<open>value_types\<close> is built
  from the members of the enum \<^verbatim>\<open>ValueType\<close> of \<^verbatim>\<open>contracts/tool.py\<close>, which
  is not in the sources; it is the parameter \<open>value_types\<close>. The loop runs over the
  items of \<^verbatim>\<open>tool.inputs\<close> with the dict \<^verbatim>\<open>connection_names\<close> as its
  state. An input of the node is an \<^verbatim>\<open>InputAssignment\<close> when the node has it.
\<close>

fun connection_name_loop ::
  "string list \<Rightarrow> Node \<Rightarrow> (string \<times> string list) list \<Rightarrow> (string \<times> pyval) list \<Rightarrow>
   (string \<times> pyval) list" where
  "connection_name_loop value_types node [] connection_names = connection_names"
| "connection_name_loop value_types node ((k, input_type) # rest) connection_names =
     (if list_all (\<lambda>ty. lower ty \<in> set value_types) input_type
      then connection_name_loop value_types node rest connection_names
      else
        (case map_of (node_inputs node) k of
           Some input_assignment \<Rightarrow>
             if ia_value_type input_assignment = LITERAL
             then connection_name_loop value_types node rest
                    (AList.update k (ia_value input_assignment) connection_names)
             else connection_name_loop value_types node rest connection_names
         | None \<Rightarrow> connection_name_loop value_types node rest connection_names))"

definition get_connection_name_from_tool ::
  "string list \<Rightarrow> Tool \<Rightarrow> Node \<Rightarrow> (string \<times> pyval) list" where
  "get_connection_name_from_tool value_types tool node =
     connection_name_loop value_types node (tool_inputs tool) []"

text \<open>
  \<^verbatim>\<open>Flow.get_connection_names\<close>. The tool loader
  \<^verbatim>\<open>self._tool_loader.load_tool_for_node\<close> is a collaborator outside the sources
  and a parameter: it returns a tool or \<^verbatim>\<open>None\<close>. An instance of \<^verbatim>\<open>Tool\<close> is
  true, so \<^verbatim>\<open>a or b\<close> takes the loader's result exactly when the catalog has no
  tool of that name. The set \<^verbatim>\<open>connection_names\<close> is a set of values;
  \<^verbatim>\<open>add\<close> and \<^verbatim>\<open>update\<close> raise \<^verbatim>\<open>TypeError\<close> on a value that is not
  hashable. (Python takes \<^verbatim>\<open>True\<close> and \<^verbatim>\<open>1\<close> for the same element of a set;
  the set of the model keeps them apart.) The loop over the normalized nodes reads them
  after the comprehension has run, that is in the heap the comprehension leaves.
\<close>

definition tool_for_node :: "(Node \<Rightarrow> Tool option) \<Rightarrow> Flow \<Rightarrow> Node \<Rightarrow> Tool option" where
  "tool_for_node load_tool_for_node flow node =
     (case get_tool flow (node_tool node) of
        Some t \<Rightarrow> Some t
      | None \<Rightarrow> load_tool_for_node node)"

fun connection_names_loop ::
  "string list \<Rightarrow> (Node \<Rightarrow> Tool option) \<Rightarrow> Flow \<Rightarrow> Node list \<Rightarrow> pyval set \<Rightarrow>
   error + pyval set" where
  "connection_names_loop value_types load_tool_for_node flow [] connection_names =
     Inr connection_names"
| "connection_names_loop value_types load_tool_for_node flow (node # rest) connection_names =
     (if truthy (node_connection node) then
        (if hashable (node_connection node)
         then connection_names_loop value_types load_tool_for_node flow rest
                (insert (node_connection node) connection_names)
         else Inl TypeError)
      else if node_type node = Some PROMPT \<or> node_type node = Some LLM then
        connection_names_loop value_types load_tool_for_node flow rest connection_names
      else
        (case tool_for_node load_tool_for_node flow node of
           Some tool \<Rightarrow>
             (let vs = map snd (get_connection_name_from_tool value_types tool node) in
              if list_all hashable vs
              then connection_names_loop value_types load_tool_for_node flow rest
                     (connection_names \<union> set vs)
              else Inl TypeError)
         | None \<Rightarrow>
             connection_names_loop value_types load_tool_for_node flow rest connection_names))"

definition get_connection_names ::
  "string list \<Rightarrow> (Node \<Rightarrow> Tool option) \<Rightarrow> Flow \<Rightarrow> heap \<Rightarrow> (error + pyval set) \<times> heap" where
  "get_connection_names value_types load_tool_for_node flow h =
     (case resolve_nodes (flow_nodes flow) (flow_node_variants flow) h of
        (Inl e, h1) \<Rightarrow> (Inl e, h1)
      | (Inr nodes, h1) \<Rightarrow>
          (case connection_names_loop value_types load_tool_for_node flow (map h1 nodes) {} of
             Inl e \<Rightarrow> (Inl e, h1)
           | Inr connection_names \<Rightarrow> (Inr {item \<in> connection_names. truthy item}, h1)))"

subsection \<open>Node overrides\<close>

text \<open>\<^verbatim>\<open>key.split(".")\<close>: the pieces of the key between its dots.\<close>

fun split_dots :: "string \<Rightarrow> string list" where
  "split_dots [] = [[]]"
| "split_dots (c # cs) =
     (if c = CHR ''.'' then [] # split_dots cs
      else (case split_dots cs of p # ps \<Rightarrow> (c # p) # ps | [] \<Rightarrow> [[c]]))"

text \<open>
  The body of the loop of \<^verbatim>\<open>Flow._apply_node_overrides\<close> for one item of the
  overrides. The assignment \<^verbatim>\<open>node_name, input_name = key.split(".")\<close> raises
  \<^verbatim>\<open>ValueError\<close> unless the key has exactly one dot (the split of a string is
  never empty). The message of the
  \<^verbatim>\<open>ValueError\<close> for a missing node names the node and the flow. (The source's
  local \<^verbatim>\<open>node_name\<close> is \<open>name\<close> here.)
\<close>

definition apply_node_override ::
  "externals \<Rightarrow> Flow \<Rightarrow> string \<times> pyval \<Rightarrow> heap \<Rightarrow> (error + unit) \<times> heap" where
  "apply_node_override ext flow item h =
     (case split_dots (fst item) of
        [piece] \<Rightarrow> (Inl (ValueError ''not enough values to unpack (expected 2, got 1)''), h)
      | [name, input_name] \<Rightarrow>
          (case get_node flow h name of
             None \<Rightarrow>
               (Inl (ValueError (''Cannot find node '' @ name @ '' in flow ''
                                 @ format_value ext (flow_name flow))), h)
           | Some node \<Rightarrow>
               if truthy (node_connection (h node)) \<and> input_name = ''connection''
               then (Inr (), h(node := (h node)\<lparr>node_connection := snd item\<rparr>))
               else (Inr (),
                     h(node := (h node)\<lparr>node_inputs :=
                         AList.update input_name (InputAssignment (snd item) LITERAL [] [])
                           (node_inputs (h node))\<rparr>)))
      | _ \<Rightarrow> (Inl (ValueError ''too many values to unpack (expected 2)''), h))"

fun node_overrides_loop ::
  "externals \<Rightarrow> Flow \<Rightarrow> (string \<times> pyval) list \<Rightarrow> heap \<Rightarrow> (error + unit) \<times> heap" where
  "node_overrides_loop ext flow [] h = (Inr (), h)"
| "node_overrides_loop ext flow (item # rest) h =
     (case apply_node_override ext flow item h of
        (Inl e, h1) \<Rightarrow> (Inl e, h1)
      | (Inr u, h1) \<Rightarrow> node_overrides_loop ext flow rest h1)"

text \<open>
  \<^verbatim>\<open>Flow._apply_node_overrides\<close>; the overrides are a dict with string keys, and
  \<^verbatim>\<open>None\<close> is as the empty dict. It returns \<^verbatim>\<open>self\<close>.
\<close>

definition apply_node_overrides ::
  "externals \<Rightarrow> Flow \<Rightarrow> (string \<times> pyval) list \<Rightarrow> heap \<Rightarrow> (error + Flow) \<times> heap" where
  "apply_node_overrides ext flow node_overrides h =
     (if node_overrides = [] then (Inr flow, h)
      else
        (case node_overrides_loop ext flow node_overrides h of
           (Inl e, h1) \<Rightarrow> (Inl e, h1)
         | (Inr u, h1) \<Rightarrow> (Inr flow, h1)))"

subsection \<open>A flow with a node that has variants\<close>

text \<open>
  The node that \<^verbatim>\<open>Node.deserialize\<close> constructs from the empty tree, and a heap
  with three nodes: at 0 the node \<^verbatim>\<open>A\<close>, flagged \<^verbatim>\<open>use_variants\<close>; at 1 the
  node definition of its default variant \<^verbatim>\<open>v0\<close>, named \<^verbatim>\<open>A_v0\<close> in the
  table, with tool \<^verbatim>\<open>X\<close> and the literal input \<^verbatim>\<open>conn = conn2\<close>; at 2 the LLM
  node \<^verbatim>\<open>B\<close> with connection \<^verbatim>\<open>conn1\<close>.
\<close>

definition blank_node :: Node where
  "blank_node =
     \<lparr>node_name = PNone, node_tool = PNone, node_inputs = [], node_comment = PStr [],
      node_api = PNone, node_provider = PNone, node_module = PNone, node_connection = PNone,
      node_aggregation = PBool False, node_enable_cache = PBool False,
      node_use_variants = PBool False, node_source = None, node_type = None,
      node_skip = None, node_activate = None\<rparr>"

definition example_heap :: heap where
  "example_heap =
     (\<lambda>r. blank_node)
       (0 := blank_node\<lparr>node_name := PStr ''A'', node_use_variants := PBool True\<rparr>,
        1 := blank_node\<lparr>node_name := PStr ''A_v0'', node_tool := PStr ''X'',
               node_inputs := [(''conn'', InputAssignment (PStr ''conn2'') LITERAL [] [])]\<rparr>,
        2 := blank_node\<lparr>node_name := PStr ''B'', node_type := Some LLM,
               node_connection := PStr ''conn1''\<rparr>)"

definition example_variants :: "(string \<times> NodeVariants) list option" where
  "example_variants =
     Some [(''A'', \<lparr>default_variant_id = PStr ''v0'',
                    variants = [(''v0'', \<lparr>variant_node = 1, variant_description = PStr []\<rparr>)]\<rparr>)]"

definition example_flow :: Flow where
  "example_flow =
     \<lparr>flow_id = PStr ''f'', flow_name = PStr ''f'', flow_nodes = [0, 2],
      flow_tools = [\<lparr>tool_name = ''X'',
                     tool_inputs = [(''conn'', [''CustomConnection'']), (''text'', [''string''])]\<rparr>],
      flow_node_variants = example_variants\<rparr>"

text \<open>The node objects that the variant table holds.\<close>

definition variant_nodes :: "(string \<times> NodeVariants) list option \<Rightarrow> ref set" where
  "variant_nodes node_variants =
     (case node_variants of
        None \<Rightarrow> {}
      | Some t \<Rightarrow> (\<Union>e \<in> snd ` set t. variant_node ` snd ` set (variants e)))"

text \<open>
  What a call may do to the heap of node objects: every field of every object but
  \<^verbatim>\<open>name\<close> is as before, and an object that the variant table does not hold is
  as before.
\<close>

definition only_names_changed :: "(string \<times> NodeVariants) list option \<Rightarrow> heap \<Rightarrow> heap \<Rightarrow> bool" where
  "only_names_changed nvs h h' =
     (\<forall>r. (h' r)\<lparr>node_name := node_name (h r)\<rparr> = h r \<and> (r \<notin> variant_nodes nvs \<longrightarrow> h' r = h r))"

text \<open>
  What applying overrides may do to the heap: the name of every node object is as
  before, and an object that is not in the node list of the flow is as before.
\<close>

definition names_kept :: "Flow \<Rightarrow> heap \<Rightarrow> heap \<Rightarrow> bool" where
  "names_kept flow h h' =
     (\<forall>r. node_name (h' r) = node_name (h r) \<and> (r \<notin> set (flow_nodes flow) \<longrightarrow> h' r = h r))"

text \<open>
  An item of the overrides whose key is \<^verbatim>\<open><node_name>.<field>\<close>, with one dot, and
  whose node name is the name of a node of the flow.
\<close>

definition targets_node :: "Flow \<Rightarrow> heap \<Rightarrow> string \<times> pyval \<Rightarrow> bool" where
  "targets_node flow h item =
     (\<exists>n f. fst item = n @ ''.'' @ f \<and> \<not> has_dot n \<and> \<not> has_dot f \<and> get_node flow h n \<noteq> None)"

subsection \<open>Connection names as the spec words them\<close>




section \<open>Properties of the reference codec\<close>

subsection \<open>Strings\<close>

lemma startswith_append: "startswith (p @ x) p"
  by (simp add: startswith_def)

lemma startswith_iff: "startswith s p = (\<exists>x. s = p @ x)"
proof
  assume "startswith s p"
  then have "s = p @ drop (length p) s"
    unfolding startswith_def by (metis append_take_drop_id)
  then show "\<exists>x. s = p @ x" ..
next
  assume "\<exists>x. s = p @ x"
  then show "startswith s p" by (auto simp: startswith_def)
qed

lemma takeWhile_nodot:
  "\<not> has_dot n \<Longrightarrow> takeWhile (\<lambda>c. c \<noteq> CHR ''.'') (n @ CHR ''.'' # r) = n"
  by (induction n) (auto simp: has_dot_def)

lemma dropWhile_nodot:
  "\<not> has_dot n \<Longrightarrow> dropWhile (\<lambda>c. c \<noteq> CHR ''.'') (n @ CHR ''.'' # r) = CHR ''.'' # r"
  by (induction n) (auto simp: has_dot_def)

lemma split_first_dot_append:
  "\<not> has_dot n \<Longrightarrow> split_first_dot (n @ CHR ''.'' # r) = (n, r)"
  by (simp add: split_first_dot_def takeWhile_nodot dropWhile_nodot)

lemma split_first_dot_decomp:
  "has_dot s \<Longrightarrow> s = fst (split_first_dot s) @ CHR ''.'' # snd (split_first_dot s) \<and>
     \<not> has_dot (fst (split_first_dot s))"
  by (induction s) (auto simp: has_dot_def split_first_dot_def)

subsection \<open>The prefix loops\<close>

lemma find_prefixes:
  "find (startswith v) FLOW_INPUT_PREFIXES =
     (if startswith v ''flow.'' then Some ''flow.''
      else if startswith v ''inputs.'' then Some ''inputs.'' else None)"
  by (simp add: FLOW_INPUT_PREFIXES_def FLOW_INPUT_PREFIX_def)

lemma is_flow_input_iff:
  "is_flow_input v = (startswith v ''flow.'' \<or> startswith v ''inputs.'')"
  by (simp add: is_flow_input_def FLOW_INPUT_PREFIXES_def FLOW_INPUT_PREFIX_def)

lemma deserialize_node_reference_type:
  "ia_value_type (deserialize_node_reference d) = NODE_REFERENCE"
  by (simp add: deserialize_node_reference_def Let_def split: prod.splits)

lemma deserialize_reference_total:
  "\<exists>a. deserialize_reference v = Inr a \<and> ia_value_type a \<noteq> LITERAL"
  by (auto simp: deserialize_reference_def is_flow_input_iff FlowInputAssignment_deserialize_def
      find_prefixes deserialize_node_reference_type)

lemma deserialize_reference_flow:
  "deserialize_reference (''flow.'' @ x) =
     Inr (FlowInputAssignment (PStr x) FLOW_INPUT [] [] ''flow.'')"
  by (simp add: deserialize_reference_def is_flow_input_iff FlowInputAssignment_deserialize_def
      find_prefixes startswith_def)

lemma deserialize_reference_inputs:
  "deserialize_reference (''inputs.'' @ x) =
     Inr (FlowInputAssignment (PStr x) FLOW_INPUT [] [] ''inputs.'')"
  by (simp add: deserialize_reference_def is_flow_input_iff FlowInputAssignment_deserialize_def
      find_prefixes startswith_def)

subsection \<open>The wrapper\<close>

lemma deserialize_wrapped:
  "InputAssignment_deserialize (PStr (CHR ''$'' # CHR ''{'' # d @ [CHR ''}''])) =
     deserialize_reference d"
  by (simp add: startswith_def)

lemma wrapped_form:
  assumes "startswith s ''$''" "length s > 2" "hd (drop 1 s) = CHR ''{''"
    "last (drop 1 s) = CHR ''}''"
  shows "s = CHR ''$'' # CHR ''{'' # butlast (drop 1 (drop 1 s)) @ [CHR ''}'']"
proof -
  from assms(1,2) obtain r where r: "s = CHR ''$'' # r" "length r \<ge> 2"
    by (cases s) (auto simp: startswith_def)
  with assms(3) obtain q where q: "r = CHR ''{'' # q" "q \<noteq> []"
    by (cases r) (auto simp: Suc_le_eq)
  with r assms(4) have "last q = CHR ''}''" by simp
  with q have "q = butlast q @ [CHR ''}'']" by (metis append_butlast_last_id)
  with r q show ?thesis by simp
qed

lemma serialize_flow_input:
  "InputAssignment_serialize ext (FlowInputAssignment (PStr x) FLOW_INPUT sec prop p) =
     PStr (CHR ''$'' # CHR ''{'' # (''flow.'' @ x) @ [CHR ''}''])"
  by (simp add: InputAssignment_serialize_def FLOW_INPUT_PREFIX_def)

subsection \<open>Which strings are references\<close>

text \<open>
  C1 (as amended). For every string \<open>s\<close>, \<^verbatim>\<open>InputAssignment.deserialize(s)\<close> returns
  (it never raises), and what it returns is a reference (a flow input or a node
  reference) exactly when \<open>s\<close> starts with \<^verbatim>\<open>$\<close>, has more than two characters, has
  \<^verbatim>\<open>{\<close> as its second character and ends with \<^verbatim>\<open>}\<close>. Every other string, a
  wrapper with no closing brace included, gives a literal assignment that holds \<open>s\<close>
  unchanged. The string \<^verbatim>\<open>${}\<close> meets the four conditions and is a reference.
\<close>

theorem deserialize_reference_iff_wrapped:
  "\<exists>a. InputAssignment_deserialize (PStr s) = Inr a \<and>
     (ia_value_type a \<noteq> LITERAL) =
       (startswith s ''$'' \<and> length s > 2 \<and> s ! 1 = CHR ''{'' \<and> last s = CHR ''}'') \<and>
     (ia_value_type a = LITERAL \<longrightarrow> a = InputAssignment (PStr s) LITERAL [] [])"
proof (cases "startswith s ''$'' \<and> length s > 2")
  case False
  then show ?thesis by auto
next
  case True
  then have hd1: "hd (drop 1 s) = s ! 1" by (simp add: hd_drop_conv_nth)
  from True have l1: "last (drop 1 s) = last s" by simp
  show ?thesis
  proof (cases "s ! 1 = CHR ''{'' \<and> last s = CHR ''}''")
    case False
    with True hd1 l1 show ?thesis by auto
  next
    case w: True
    obtain a where a: "deserialize_reference (butlast (drop 1 (drop 1 s))) = Inr a"
      "ia_value_type a \<noteq> LITERAL"
      using deserialize_reference_total by blast
    with True w hd1 l1 show ?thesis by (simp add: Let_def)
  qed
qed

text \<open>The theorem at \<^verbatim>\<open>${unterminated\<close>: a literal holding the string unchanged.\<close>

theorem deserialize_reference_iff_wrapped_witness:
  "InputAssignment_deserialize (PStr ''${unterminated'') =
     Inr (InputAssignment (PStr ''${unterminated'') LITERAL [] [])"
proof -
  obtain a where a: "InputAssignment_deserialize (PStr ''${unterminated'') = Inr a"
    "(ia_value_type a \<noteq> LITERAL) =
       (startswith ''${unterminated'' ''$'' \<and> length ''${unterminated'' > 2 \<and>
        ''${unterminated'' ! 1 = CHR ''{'' \<and> last ''${unterminated'' = CHR ''}'')"
    "ia_value_type a = LITERAL \<longrightarrow> a = InputAssignment (PStr ''${unterminated'') LITERAL [] []"
    using deserialize_reference_iff_wrapped [of "''${unterminated''"] by blast
  from a(2) have "ia_value_type a = LITERAL" by simp
  with a(1,3) show ?thesis by simp
qed

text \<open>
  The claim as written also lists \<^verbatim>\<open>${}\<close> among the strings that give a literal.
  The code returns a node reference to the node with the empty name, section
  \<^verbatim>\<open>output\<close>.
\<close>

theorem deserialize_empty_braces_is_reference:
  "InputAssignment_deserialize (PStr ''${}'') =
     Inr (InputAssignment (PStr []) NODE_REFERENCE ''output'' [])"
  by (simp add: startswith_def deserialize_reference_def is_flow_input_iff
      deserialize_node_reference_def has_dot_def)

subsection \<open>Flow inputs\<close>

lemma deserialize_wrapped_flow:
  "InputAssignment_deserialize (PStr (''${flow.'' @ x @ ''}'')) =
     Inr (FlowInputAssignment (PStr x) FLOW_INPUT [] [] ''flow.'')"
proof -
  have "''${flow.'' @ x @ ''}'' = CHR ''$'' # CHR ''{'' # (''flow.'' @ x) @ [CHR ''}'']"
    by simp
  then show ?thesis by (simp only: deserialize_wrapped deserialize_reference_flow)
qed

lemma deserialize_wrapped_inputs:
  "InputAssignment_deserialize (PStr (''${inputs.'' @ x @ ''}'')) =
     Inr (FlowInputAssignment (PStr x) FLOW_INPUT [] [] ''inputs.'')"
proof -
  have "''${inputs.'' @ x @ ''}'' = CHR ''$'' # CHR ''{'' # (''inputs.'' @ x) @ [CHR ''}'']"
    by simp
  then show ?thesis by (simp only: deserialize_wrapped deserialize_reference_inputs)
qed

text \<open>
  C7. An inner reference text that starts with \<^verbatim>\<open>flow.\<close> or with the legacy
  \<^verbatim>\<open>inputs.\<close> is deserialized, by \<^verbatim>\<open>FlowInputAssignment.deserialize\<close>, by
  \<^verbatim>\<open>deserialize_reference\<close> and through the \<^verbatim>\<open>${...}\<close> wrapper, into a
  \<^verbatim>\<open>FlowInputAssignment\<close> whose value is the text after the prefix and whose
  \<^verbatim>\<open>prefix\<close> is the prefix that matched. \<^verbatim>\<open>FlowInputAssignment.deserialize\<close> on
  a string that starts with neither prefix raises \<^verbatim>\<open>ValueError\<close>.
\<close>

theorem flow_input_deserialize_by_prefix:
  "FlowInputAssignment_deserialize (''flow.'' @ x) =
     Inr (FlowInputAssignment (PStr x) FLOW_INPUT [] [] ''flow.'') \<and>
   FlowInputAssignment_deserialize (''inputs.'' @ x) =
     Inr (FlowInputAssignment (PStr x) FLOW_INPUT [] [] ''inputs.'') \<and>
   deserialize_reference (''flow.'' @ x) =
     Inr (FlowInputAssignment (PStr x) FLOW_INPUT [] [] ''flow.'') \<and>
   deserialize_reference (''inputs.'' @ x) =
     Inr (FlowInputAssignment (PStr x) FLOW_INPUT [] [] ''inputs.'') \<and>
   InputAssignment_deserialize (PStr (''${flow.'' @ x @ ''}'')) =
     Inr (FlowInputAssignment (PStr x) FLOW_INPUT [] [] ''flow.'') \<and>
   InputAssignment_deserialize (PStr (''${inputs.'' @ x @ ''}'')) =
     Inr (FlowInputAssignment (PStr x) FLOW_INPUT [] [] ''inputs.'') \<and>
   (\<not> startswith v ''flow.'' \<and> \<not> startswith v ''inputs.'' \<longrightarrow>
      FlowInputAssignment_deserialize v = Inl (ValueError (''Unexpected flow input value '' @ v)))"
proof -
  have 1: "FlowInputAssignment_deserialize (''flow.'' @ x) =
     Inr (FlowInputAssignment (PStr x) FLOW_INPUT [] [] ''flow.'')"
    by (simp add: FlowInputAssignment_deserialize_def find_prefixes startswith_def)
  have 2: "FlowInputAssignment_deserialize (''inputs.'' @ x) =
     Inr (FlowInputAssignment (PStr x) FLOW_INPUT [] [] ''inputs.'')"
    by (simp add: FlowInputAssignment_deserialize_def find_prefixes startswith_def)
  have 5: "\<not> startswith v ''flow.'' \<and> \<not> startswith v ''inputs.'' \<longrightarrow>
      FlowInputAssignment_deserialize v = Inl (ValueError (''Unexpected flow input value '' @ v))"
    by (simp add: FlowInputAssignment_deserialize_def find_prefixes)
  from 1 2 5 deserialize_wrapped_flow deserialize_wrapped_inputs
    deserialize_reference_flow deserialize_reference_inputs
  show ?thesis by blast
qed

text \<open>The theorem at the node reference text \<^verbatim>\<open>node1.output\<close>: the call raises.\<close>

theorem flow_input_deserialize_by_prefix_witness:
  "FlowInputAssignment_deserialize ''node1.output'' =
     Inl (ValueError ''Unexpected flow input value node1.output'')"
  using flow_input_deserialize_by_prefix [of "[]" "''node1.output''"]
  by (simp add: startswith_def)

text \<open>
  C10. Serialization always writes the canonical prefix: \<^verbatim>\<open>${inputs.x}\<close> is
  deserialized into a flow input that records the prefix \<^verbatim>\<open>inputs.\<close>, and a flow
  input with value \<open>x\<close> is serialized as \<^verbatim>\<open>${flow.x}\<close> whatever its recorded prefix
  is, which is not the string it was read from.
\<close>

theorem serialize_normalizes_legacy_prefix:
  "InputAssignment_deserialize (PStr (''${inputs.'' @ x @ ''}'')) =
     Inr (FlowInputAssignment (PStr x) FLOW_INPUT [] [] ''inputs.'') \<and>
   InputAssignment_serialize ext (FlowInputAssignment (PStr x) FLOW_INPUT sec prop p) =
     PStr (''${flow.'' @ x @ ''}'') \<and>
   ''${flow.'' @ x @ ''}'' \<noteq> ''${inputs.'' @ x @ ''}''"
proof -
  have "InputAssignment_serialize ext (FlowInputAssignment (PStr x) FLOW_INPUT sec prop p) =
     PStr (''${flow.'' @ x @ ''}'')"
    by (simp add: serialize_flow_input)
  moreover have "''${flow.'' @ x @ ''}'' \<noteq> ''${inputs.'' @ x @ ''}''"
    by simp
  ultimately show ?thesis using deserialize_wrapped_inputs by blast
qed

subsection \<open>Round trip\<close>

lemma serialize_node_reference:
  "InputAssignment_serialize ext (InputAssignment (PStr n) NODE_REFERENCE sec prop) =
     PStr (CHR ''$'' # CHR ''{'' #
       (n @ CHR ''.'' # sec @ (if prop = [] then [] else CHR ''.'' # prop)) @ [CHR ''}''])"
  by (simp add: InputAssignment_serialize_def)

lemma startswith_mono: "startswith t p \<Longrightarrow> startswith (t @ x) p"
  by (auto simp: startswith_iff)

lemma is_flow_input_mono: "is_flow_input t \<Longrightarrow> is_flow_input (t @ x)"
  by (auto simp: is_flow_input_iff startswith_mono)

lemma has_dot_simps:
  "has_dot (a @ b) = (has_dot a \<or> has_dot b)" "has_dot (CHR ''.'' # r)"
  by (auto simp: has_dot_def)

lemma flow_input_nodot:
  assumes "\<not> has_dot d" "is_flow_input (d @ CHR ''.'' # r)"
  shows "d = ''flow'' \<or> d = ''inputs''"
proof -
  from assms(2) consider x where "d @ CHR ''.'' # r = ''flow'' @ CHR ''.'' # x"
    | x where "d @ CHR ''.'' # r = ''inputs'' @ CHR ''.'' # x"
    by (auto simp: is_flow_input_iff startswith_iff)
  then show ?thesis
  proof cases
    case 1
    have "split_first_dot (''flow'' @ CHR ''.'' # x) = (''flow'', x)"
      by (rule split_first_dot_append) (simp add: has_dot_def)
    with 1 split_first_dot_append [OF assms(1), of r] show ?thesis by simp
  next
    case 2
    have "split_first_dot (''inputs'' @ CHR ''.'' # x) = (''inputs'', x)"
      by (rule split_first_dot_append) (simp add: has_dot_def)
    with 2 split_first_dot_append [OF assms(1), of r] show ?thesis by simp
  qed
qed

lemma deserialize_node_reference_2:
  "\<not> has_dot n \<Longrightarrow> \<not> has_dot sec \<Longrightarrow>
   deserialize_node_reference (n @ CHR ''.'' # sec) = InputAssignment (PStr n) NODE_REFERENCE sec []"
  by (simp add: deserialize_node_reference_def has_dot_simps split_first_dot_append)

lemma roundtrip_node_reference:
  assumes nf: "\<not> is_flow_input d" and ne: "d \<noteq> ''flow''" "d \<noteq> ''inputs''"
  shows "\<exists>b. InputAssignment_deserialize
           (InputAssignment_serialize ext (deserialize_node_reference d)) = Inr b \<and>
           equivalent_assignments (deserialize_node_reference d) b"
proof (cases "has_dot d")
  case False
  then have a: "deserialize_node_reference d = InputAssignment (PStr d) NODE_REFERENCE ''output'' []"
    by (simp add: deserialize_node_reference_def)
  from False ne have "\<not> is_flow_input (d @ CHR ''.'' # ''output'')"
    using flow_input_nodot by blast
  moreover from False have "deserialize_node_reference (d @ CHR ''.'' # ''output'') =
      InputAssignment (PStr d) NODE_REFERENCE ''output'' []"
    by (rule deserialize_node_reference_2) (simp add: has_dot_def)
  ultimately show ?thesis
    unfolding a serialize_node_reference deserialize_wrapped
    by (simp add: deserialize_reference_def equivalent_assignments_def)
next
  case True
  define n where "n = fst (split_first_dot d)"
  define port where "port = snd (split_first_dot d)"
  from True have d: "d = n @ CHR ''.'' # port" "\<not> has_dot n"
    using split_first_dot_decomp [of d] by (simp_all add: n_def port_def)
  have sp: "split_first_dot d = (n, port)" by (simp add: n_def port_def)
  show ?thesis
  proof (cases "has_dot port")
    case False
    with True sp have a: "deserialize_node_reference d = InputAssignment (PStr n) NODE_REFERENCE port []"
      by (simp add: deserialize_node_reference_def)
    have "deserialize_reference d = Inr (InputAssignment (PStr n) NODE_REFERENCE port [])"
      using nf a by (simp add: deserialize_reference_def)
    then show ?thesis
      unfolding a serialize_node_reference deserialize_wrapped
      by (simp add: d(1) [symmetric] equivalent_assignments_def)
  next
    case pd: True
    define sec where "sec = fst (split_first_dot port)"
    define prp where "prp = snd (split_first_dot port)"
    from pd have p: "port = sec @ CHR ''.'' # prp" "\<not> has_dot sec"
      using split_first_dot_decomp [of port] by (simp_all add: sec_def prp_def)
    have sp2: "split_first_dot port = (sec, prp)" by (simp add: sec_def prp_def)
    from True pd sp sp2
    have a: "deserialize_node_reference d = InputAssignment (PStr n) NODE_REFERENCE sec prp"
      by (simp add: deserialize_node_reference_def)
    show ?thesis
    proof (cases "prp = []")
      case False
      have "deserialize_reference d = Inr (InputAssignment (PStr n) NODE_REFERENCE sec prp)"
        using nf a by (simp add: deserialize_reference_def)
      moreover have "n @ CHR ''.'' # sec @ CHR ''.'' # prp = d"
        using d(1) p(1) by simp
      ultimately show ?thesis
        unfolding a serialize_node_reference deserialize_wrapped using False
        by (simp add: equivalent_assignments_def)
    next
      case e: True
      have "d = (n @ CHR ''.'' # sec) @ ''.''" using d(1) p(1) e by simp
      with nf have "\<not> is_flow_input (n @ CHR ''.'' # sec)"
        using is_flow_input_mono by metis
      moreover have "deserialize_node_reference (n @ CHR ''.'' # sec) =
          InputAssignment (PStr n) NODE_REFERENCE sec []"
        using d(2) p(2) by (rule deserialize_node_reference_2)
      ultimately show ?thesis
        unfolding a serialize_node_reference deserialize_wrapped using e
        by (simp add: deserialize_reference_def equivalent_assignments_def)
    qed
  qed
qed

lemma roundtrip_flow_input:
  assumes "is_flow_input d" "deserialize_reference d = Inr a"
  shows "\<exists>b. InputAssignment_deserialize (InputAssignment_serialize ext a) = Inr b \<and>
           equivalent_assignments a b"
proof -
  from assms obtain p where p: "p = ''flow.'' \<or> p = ''inputs.''" "startswith d p"
    "a = FlowInputAssignment (PStr (drop (length p) d)) FLOW_INPUT [] [] p"
    by (auto simp: deserialize_reference_def FlowInputAssignment_deserialize_def find_prefixes
        split: if_splits)
  show ?thesis
    unfolding p(3) serialize_flow_input deserialize_wrapped deserialize_reference_flow
    by (simp add: equivalent_assignments_def)
qed

lemma node_reference_named_flow:
  assumes "\<not> is_flow_input d" "d = ''flow'' \<or> d = ''inputs''"
  shows "ia_value (deserialize_node_reference d) = PStr ''flow'' \<or>
         ia_value (deserialize_node_reference d) = PStr ''inputs''"
  using assms(2) by (auto simp: deserialize_node_reference_def has_dot_def)

text \<open>
  C2 (as amended). Let \<open>a\<close> be what \<^verbatim>\<open>InputAssignment.deserialize\<close> returns on a
  string \<open>s\<close> (a string is never a connection value). Unless \<open>a\<close> is a node reference
  to a node named exactly \<^verbatim>\<open>flow\<close> or \<^verbatim>\<open>inputs\<close>, deserializing the
  serialization of \<open>a\<close> returns an assignment with the same \<^verbatim>\<open>value_type\<close>,
  \<^verbatim>\<open>value\<close>, \<^verbatim>\<open>section\<close> and \<^verbatim>\<open>property\<close>.
\<close>

theorem deserialize_serialize_roundtrip:
  assumes des: "InputAssignment_deserialize (PStr s) = Inr a"
    and nc: "\<not> is_connection_value ext (PStr s)"
    and nm: "\<not> (ia_value_type a = NODE_REFERENCE \<and>
               (ia_value a = PStr ''flow'' \<or> ia_value a = PStr ''inputs''))"
  shows "\<exists>b. InputAssignment_deserialize (InputAssignment_serialize ext a) = Inr b \<and>
           equivalent_assignments a b"
proof (cases "startswith s ''$'' \<and> length s > 2 \<and> hd (drop 1 s) = CHR ''{'' \<and>
    last (drop 1 s) = CHR ''}''")
  case False
  with des have a: "a = InputAssignment (PStr s) LITERAL [] []"
    by (auto simp: Let_def split: if_splits)
  with nc have "InputAssignment_serialize ext a = PStr s"
    by (simp add: InputAssignment_serialize_def)
  with des show ?thesis by (simp add: equivalent_assignments_def)
next
  case True
  define d where "d = butlast (drop 1 (drop 1 s))"
  from True have s: "s = CHR ''$'' # CHR ''{'' # d @ [CHR ''}'']"
    unfolding d_def by (intro wrapped_form) simp_all
  from des have ref: "deserialize_reference d = Inr a"
    unfolding s deserialize_wrapped .
  show ?thesis
  proof (cases "is_flow_input d")
    case True
    then show ?thesis using ref by (rule roundtrip_flow_input)
  next
    case False
    with ref have a: "a = deserialize_node_reference d"
      by (simp add: deserialize_reference_def)
    have "d \<noteq> ''flow'' \<and> d \<noteq> ''inputs''"
      using node_reference_named_flow [OF False] nm
      unfolding a deserialize_node_reference_type by blast
    with False show ?thesis unfolding a by (intro roundtrip_node_reference) simp_all
  qed
qed

text \<open>The theorem at \<^verbatim>\<open>${node1.output.field}\<close>.\<close>

theorem deserialize_serialize_roundtrip_witness:
  "\<exists>b. InputAssignment_deserialize (InputAssignment_serialize no_connections
          (InputAssignment (PStr ''node1'') NODE_REFERENCE ''output'' ''field'')) = Inr b \<and>
       equivalent_assignments (InputAssignment (PStr ''node1'') NODE_REFERENCE ''output'' ''field'') b"
proof -
  have "InputAssignment_deserialize (PStr ''${node1.output.field}'') =
      Inr (InputAssignment (PStr ''node1'') NODE_REFERENCE ''output'' ''field'')"
    by (simp add: startswith_def deserialize_reference_def is_flow_input_iff
        deserialize_node_reference_def has_dot_def split_first_dot_def)
  moreover have "\<not> is_connection_value no_connections (PStr ''${node1.output.field}'')"
    by (simp add: no_connections_def)
  ultimately show ?thesis
    by (rule deserialize_serialize_roundtrip) simp
qed

text \<open>
  The claim as written covers every assignment deserialization can produce. The string
  \<^verbatim>\<open>${flow}\<close> gives a node reference to the node \<^verbatim>\<open>flow\<close>, section
  \<^verbatim>\<open>output\<close>; it is serialized as \<^verbatim>\<open>${flow.output}\<close>, which is read back as
  the flow input \<^verbatim>\<open>output\<close>.
\<close>

theorem roundtrip_fails_for_node_named_flow:
  "InputAssignment_deserialize (PStr ''${flow}'') =
     Inr (InputAssignment (PStr ''flow'') NODE_REFERENCE ''output'' []) \<and>
   InputAssignment_deserialize (InputAssignment_serialize no_connections
     (InputAssignment (PStr ''flow'') NODE_REFERENCE ''output'' [])) =
     Inr (FlowInputAssignment (PStr ''output'') FLOW_INPUT [] [] ''flow.'') \<and>
   \<not> equivalent_assignments (InputAssignment (PStr ''flow'') NODE_REFERENCE ''output'' [])
     (FlowInputAssignment (PStr ''output'') FLOW_INPUT [] [] ''flow.'')"
  by (simp add: startswith_def deserialize_reference_def is_flow_input_iff
      deserialize_node_reference_def has_dot_def InputAssignment_serialize_def
      FlowInputAssignment_deserialize_def find_prefixes equivalent_assignments_def)

section \<open>Properties of nodes\<close>

lemma InputAssignment_deserialize_total: "\<exists>a. InputAssignment_deserialize v = Inr a"
proof (cases v)
  case (PStr s)
  obtain a where "deserialize_reference (butlast (drop 1 (drop 1 s))) = Inr a"
    using deserialize_reference_total by blast
  with PStr show ?thesis by (simp add: Let_def)
qed simp_all

lemma deserialize_inputs_total: "\<exists>as. deserialize_inputs items = Inr as"
proof (induction items)
  case Nil
  show ?case by simp
next
  case (Cons kv items)
  obtain k v where kv: "kv = (k, v)" by (cases kv)
  obtain a where "InputAssignment_deserialize v = Inr a"
    using InputAssignment_deserialize_total by blast
  with Cons kv show ?case by (auto simp: bind_err_def)
qed

lemma items_of_no_conflict: "items_of v = Inl e \<Longrightarrow> e = AttributeError"
  by (cases v) auto

lemma ToolSource_no_conflict: "ToolSource_deserialize v = Inl e \<Longrightarrow> e = AttributeError"
  by (cases v) auto

lemma to_ToolType_no_conflict: "to_ToolType T v = Inl e \<Longrightarrow> e = ValueError ''not a valid ToolType''"
  by (auto simp: to_ToolType_def split: option.splits)

lemma subscript_no_conflict: "subscript v k = Inl e \<Longrightarrow> e = TypeError \<or> e = KeyError k"
  by (cases v) (auto split: option.splits)

lemma ActivateCondition_no_conflict:
  "ActivateCondition_deserialize v = Inl e \<Longrightarrow> e = TypeError \<or> (\<exists>k. e = KeyError k)"
  using InputAssignment_deserialize_total
  by (auto simp: ActivateCondition_deserialize_def bind_err_def split: sum.splits
      dest!: subscript_no_conflict) (metis Inl_Inr_False)

lemma SkipCondition_no_conflict:
  "SkipCondition_deserialize v = Inl e \<Longrightarrow> e = TypeError \<or> (\<exists>k. e = KeyError k)"
  using InputAssignment_deserialize_total
  by (auto simp: SkipCondition_deserialize_def bind_err_def split: sum.splits
      dest!: subscript_no_conflict) (metis Inl_Inr_False)+

lemma deserialize_if_present_Inl:
  "deserialize_if_present data k f = Inl e \<Longrightarrow> \<exists>v. f v = Inl e"
  by (auto simp: deserialize_if_present_def bind_err_def split: option.splits sum.splits)

lemma deserialize_if_present_Inr:
  "deserialize_if_present data k f = Inr x \<Longrightarrow> (x \<noteq> None) = has_key data k"
  by (auto simp: deserialize_if_present_def bind_err_def has_key_def split: option.splits sum.splits)

lemma fields_no_conflict:
  "items_of v = Inl e \<Longrightarrow> e \<noteq> NodeConditionConflict n"
  "deserialize_inputs items = Inl e \<Longrightarrow> e \<noteq> NodeConditionConflict n"
  "deserialize_if_present data k ToolSource_deserialize = Inl e \<Longrightarrow> e \<noteq> NodeConditionConflict n"
  "deserialize_if_present data k (to_ToolType T) = Inl e \<Longrightarrow> e \<noteq> NodeConditionConflict n"
  "deserialize_if_present data k SkipCondition_deserialize = Inl e \<Longrightarrow> e \<noteq> NodeConditionConflict n"
  "deserialize_if_present data k ActivateCondition_deserialize = Inl e \<Longrightarrow> e \<noteq> NodeConditionConflict n"
proof -
  show "items_of v = Inl e \<Longrightarrow> e \<noteq> NodeConditionConflict n"
    by (auto dest: items_of_no_conflict)
  show "deserialize_inputs items = Inl e \<Longrightarrow> e \<noteq> NodeConditionConflict n"
    using deserialize_inputs_total [of items] by auto
  show "deserialize_if_present data k ToolSource_deserialize = Inl e \<Longrightarrow> e \<noteq> NodeConditionConflict n"
    by (auto dest!: deserialize_if_present_Inl ToolSource_no_conflict)
  show "deserialize_if_present data k (to_ToolType T) = Inl e \<Longrightarrow> e \<noteq> NodeConditionConflict n"
    by (auto dest!: deserialize_if_present_Inl to_ToolType_no_conflict)
  show "deserialize_if_present data k SkipCondition_deserialize = Inl e \<Longrightarrow> e \<noteq> NodeConditionConflict n"
    by (auto dest!: deserialize_if_present_Inl SkipCondition_no_conflict)
  show "deserialize_if_present data k ActivateCondition_deserialize = Inl e \<Longrightarrow> e \<noteq> NodeConditionConflict n"
    by (auto dest!: deserialize_if_present_Inl ActivateCondition_no_conflict)
qed

lemma Node_deserialize_cases:
  assumes "items_of (py_or (dict_get data ''inputs'' PNone) (PDict [])) = Inr items"
    "deserialize_inputs items = Inr inputs"
    "deserialize_if_present data ''source'' ToolSource_deserialize = Inr src"
    "deserialize_if_present data ''type'' (to_ToolType T) = Inr typ"
    "deserialize_if_present data ''skip'' SkipCondition_deserialize = Inr skp"
    "deserialize_if_present data ''activate'' ActivateCondition_deserialize = Inr act"
  shows "(Node_deserialize T data = Inl (NodeConditionConflict n)) =
           (has_key data ''skip'' \<and> has_key data ''activate'' \<and> n = dict_get data ''name'' PNone)"
    and "has_key data ''skip'' \<and> has_key data ''activate'' \<Longrightarrow> \<exists>e. Node_deserialize T data = Inl e"
    and "\<not> (has_key data ''skip'' \<and> has_key data ''activate'') \<Longrightarrow> \<exists>node. Node_deserialize T data = Inr node"
proof -
  have k: "(skp \<noteq> None) = has_key data ''skip''" "(act \<noteq> None) = has_key data ''activate''"
    using assms(5,6) by (auto dest: deserialize_if_present_Inr)
  show "(Node_deserialize T data = Inl (NodeConditionConflict n)) =
           (has_key data ''skip'' \<and> has_key data ''activate'' \<and> n = dict_get data ''name'' PNone)"
    using assms k by (auto simp: Node_deserialize_def bind_err_def Let_def)
  show "has_key data ''skip'' \<and> has_key data ''activate'' \<Longrightarrow> \<exists>e. Node_deserialize T data = Inl e"
    using assms k by (auto simp: Node_deserialize_def bind_err_def Let_def)
  show "\<not> (has_key data ''skip'' \<and> has_key data ''activate'') \<Longrightarrow> \<exists>node. Node_deserialize T data = Inr node"
    using assms k by (auto simp: Node_deserialize_def bind_err_def Let_def)
qed

lemma Node_deserialize_field_error:
  assumes "\<not> fields_deserialize T data"
  shows "\<exists>e. Node_deserialize T data = Inl e \<and> (\<forall>n. e \<noteq> NodeConditionConflict n)"
  using assms deserialize_inputs_total
  unfolding fields_deserialize_def Node_deserialize_def bind_err_def
  by (auto split: sum.splits dest: fields_no_conflict)

text \<open>
  C5 (as amended). \<^verbatim>\<open>Node.deserialize\<close> raises the conflict error, naming the node,
  exactly when the tree has both a \<^verbatim>\<open>skip\<close> and an \<^verbatim>\<open>activate\<close> key and its
  parts deserialize (the conflict is tested last, after every part has been read). A
  tree with both keys never constructs a node: it raises the conflict error or the
  exception of the part that failed. A tree with at most one of the two keys never
  raises the conflict error, and constructs a node when its parts deserialize.
\<close>

theorem Node_deserialize_conflict_iff:
  "(Node_deserialize T data = Inl (NodeConditionConflict n)) =
     (has_key data ''skip'' \<and> has_key data ''activate'' \<and> n = dict_get data ''name'' PNone \<and>
      fields_deserialize T data) \<and>
   (has_key data ''skip'' \<and> has_key data ''activate'' \<longrightarrow> (\<exists>e. Node_deserialize T data = Inl e)) \<and>
   (\<not> (has_key data ''skip'' \<and> has_key data ''activate'') \<longrightarrow>
      Node_deserialize T data \<noteq> Inl (NodeConditionConflict n)) \<and>
   (\<not> (has_key data ''skip'' \<and> has_key data ''activate'') \<and> fields_deserialize T data \<longrightarrow>
      (\<exists>node. Node_deserialize T data = Inr node))"
proof (cases "fields_deserialize T data")
  case False
  then obtain e where "Node_deserialize T data = Inl e" "\<forall>n. e \<noteq> NodeConditionConflict n"
    using Node_deserialize_field_error by blast
  with False show ?thesis by auto
next
  case True
  then obtain items src ty skp act where f:
    "items_of (py_or (dict_get data ''inputs'' PNone) (PDict [])) = Inr items"
    "deserialize_if_present data ''source'' ToolSource_deserialize = Inr src"
    "deserialize_if_present data ''type'' (to_ToolType T) = Inr ty"
    "deserialize_if_present data ''skip'' SkipCondition_deserialize = Inr skp"
    "deserialize_if_present data ''activate'' ActivateCondition_deserialize = Inr act"
    unfolding fields_deserialize_def by blast
  obtain inputs where i: "deserialize_inputs items = Inr inputs"
    using deserialize_inputs_total by blast
  note c = Node_deserialize_cases [OF f(1) i f(2) f(3) f(4) f(5)]
  from True c(1) [of n] c(2) c(3) show ?thesis by blast
qed

text \<open>The theorem at a tree with both keys and at a tree with \<^verbatim>\<open>activate\<close> only.\<close>

theorem Node_deserialize_conflict_iff_witness:
  "Node_deserialize (\<lambda>v. None)
     [(''name'', PStr ''n''),
      (''skip'', PDict [(''when'', PStr ''${a.b}''), (''is'', PInt 1), (''return'', PStr ''y'')]),
      (''activate'', PDict [(''when'', PStr ''${flow.x}''), (''is'', PBool True)])] =
     Inl (NodeConditionConflict (PStr ''n'')) \<and>
   (\<exists>node. Node_deserialize (\<lambda>v. None)
     [(''name'', PStr ''n''),
      (''activate'', PDict [(''when'', PStr ''${flow.x}''), (''is'', PBool True)])] = Inr node)"
proof -
  let ?sk = "PDict [(''when'', PStr ''${a.b}''), (''is'', PInt 1), (''return'', PStr ''y'')]"
  let ?ac = "PDict [(''when'', PStr ''${flow.x}''), (''is'', PBool True)]"
  let ?d2 = "[(''name'', PStr ''n''), (''skip'', ?sk), (''activate'', ?ac)]"
  let ?d1 = "[(''name'', PStr ''n''), (''activate'', ?ac)]"
  have sk: "\<exists>s. SkipCondition_deserialize ?sk = Inr s"
    using InputAssignment_deserialize_total [of "PStr ''${a.b}''"]
      InputAssignment_deserialize_total [of "PStr ''y''"]
    by (auto simp: SkipCondition_deserialize_def bind_err_def simp del: InputAssignment_deserialize.simps)
  have ac: "\<exists>s. ActivateCondition_deserialize ?ac = Inr s"
    using InputAssignment_deserialize_total [of "PStr ''${flow.x}''"]
    by (auto simp: ActivateCondition_deserialize_def bind_err_def simp del: InputAssignment_deserialize.simps)
  have f2: "fields_deserialize (\<lambda>v. None) ?d2"
    using sk ac
    by (auto simp: fields_deserialize_def deserialize_if_present_def dict_get_def py_or_def bind_err_def)
  have f1: "fields_deserialize (\<lambda>v. None) ?d1"
    using ac
    by (auto simp: fields_deserialize_def deserialize_if_present_def dict_get_def py_or_def bind_err_def)
  have k2: "has_key ?d2 ''skip'' \<and> has_key ?d2 ''activate'' \<and> PStr ''n'' = dict_get ?d2 ''name'' PNone"
    by (simp add: has_key_def dict_get_def)
  have k1: "\<not> (has_key ?d1 ''skip'' \<and> has_key ?d1 ''activate'')"
    by (simp add: has_key_def)
  from Node_deserialize_conflict_iff [of "\<lambda>v. None" ?d2 "PStr ''n''"] f2 k2
  have "Node_deserialize (\<lambda>v. None) ?d2 = Inl (NodeConditionConflict (PStr ''n''))" by blast
  moreover from Node_deserialize_conflict_iff [of "\<lambda>v. None" ?d1 "PStr ''n''"] f1 k1
  have "\<exists>node. Node_deserialize (\<lambda>v. None) ?d1 = Inr node" by blast
  ultimately show ?thesis by blast
qed

text \<open>
  The claim as written holds for every tree with both keys. A tree with both keys whose
  \<^verbatim>\<open>skip\<close> dict has no \<^verbatim>\<open>when\<close> raises \<^verbatim>\<open>KeyError\<close> in
  \<^verbatim>\<open>SkipCondition.deserialize\<close>, before the conflict is tested.
\<close>

theorem Node_deserialize_malformed_skip_raises_KeyError:
  "Node_deserialize (\<lambda>v. None)
     [(''name'', PStr ''n''), (''skip'', PDict []),
      (''activate'', PDict [(''when'', PStr ''${flow.x}''), (''is'', PBool True)])] =
     Inl (KeyError ''when'')"
  by (simp add: Node_deserialize_def bind_err_def dict_get_def py_or_def deserialize_if_present_def
      SkipCondition_deserialize_def)

lemma truthy_py_or: "truthy (py_or a b) = (truthy a \<or> truthy b)"
  by (simp add: py_or_def)

lemma Node_deserialize_aggregation:
  "Node_deserialize T data = Inr node \<Longrightarrow>
     node_aggregation node = py_or (dict_get data ''aggregation'' (PBool False))
                                   (dict_get data ''reduce'' (PBool False))"
  by (auto simp: Node_deserialize_def bind_err_def Let_def split: sum.splits if_splits)

lemma Node_serialize_aggregation:
  "truthy (node_aggregation n) \<Longrightarrow>
     map_of (Node_serialize ext asdict n) ''aggregation'' = Some (PBool True) \<and>
     map_of (Node_serialize ext asdict n) ''reduce'' = Some (PBool True)"
  by (simp add: Node_serialize_def Let_def update_conv')

text \<open>
  C8. A node that \<^verbatim>\<open>Node.deserialize\<close> constructs has as \<^verbatim>\<open>aggregation\<close> the
  value of \<^verbatim>\<open>data.get("aggregation", False) or data.get("reduce", False)\<close>: it is
  true exactly when one of the two is, and for two booleans it is their disjunction.
  \<^verbatim>\<open>Node.serialize\<close> of a node whose \<^verbatim>\<open>aggregation\<close> is true has
  \<^verbatim>\<open>aggregation: True\<close> and \<^verbatim>\<open>reduce: True\<close> in the dict it returns.
\<close>

theorem aggregation_or_reduce:
  "(Node_deserialize T data = Inr node \<longrightarrow>
      node_aggregation node = py_or (dict_get data ''aggregation'' (PBool False))
                                    (dict_get data ''reduce'' (PBool False)) \<and>
      truthy (node_aggregation node) =
        (truthy (dict_get data ''aggregation'' (PBool False)) \<or>
         truthy (dict_get data ''reduce'' (PBool False)))) \<and>
   py_or (PBool a) (PBool b) = PBool (a \<or> b) \<and>
   (truthy (node_aggregation n) \<longrightarrow>
      map_of (Node_serialize ext asdict n) ''aggregation'' = Some (PBool True) \<and>
      map_of (Node_serialize ext asdict n) ''reduce'' = Some (PBool True))"
proof -
  have "py_or (PBool a) (PBool b) = PBool (a \<or> b)" by (simp add: py_or_def)
  then show ?thesis
    using Node_deserialize_aggregation [of T data node] truthy_py_or
      Node_serialize_aggregation [of n ext asdict]
    by metis
qed

text \<open>The theorem at a tree with the legacy key only.\<close>

theorem aggregation_or_reduce_witness:
  "\<exists>node. Node_deserialize (\<lambda>v. None) [(''name'', PStr ''n''), (''reduce'', PBool True)] = Inr node \<and>
     node_aggregation node = PBool True \<and>
     map_of (Node_serialize no_connections (\<lambda>n. []) node) ''aggregation'' = Some (PBool True) \<and>
     map_of (Node_serialize no_connections (\<lambda>n. []) node) ''reduce'' = Some (PBool True)"
proof -
  let ?d = "[(''name'', PStr ''n''), (''reduce'', PBool True)]"
  obtain node where n: "Node_deserialize (\<lambda>v. None) ?d = Inr node"
    by (simp add: Node_deserialize_def bind_err_def dict_get_def py_or_def deserialize_if_present_def)
  from aggregation_or_reduce [of "\<lambda>v. None" ?d node True True node no_connections "\<lambda>n. []"] n
  have a: "node_aggregation node = py_or (dict_get ?d ''aggregation'' (PBool False))
             (dict_get ?d ''reduce'' (PBool False))"
    and s: "truthy (node_aggregation node) \<longrightarrow>
      map_of (Node_serialize no_connections (\<lambda>n. []) node) ''aggregation'' = Some (PBool True) \<and>
      map_of (Node_serialize no_connections (\<lambda>n. []) node) ''reduce'' = Some (PBool True)"
    by blast+
  from a have "node_aggregation node = PBool True" by (simp add: dict_get_def py_or_def)
  with n s show ?thesis by simp
qed

section \<open>Properties of flows\<close>

lemma py_dict_get_hashable: "hashable k \<Longrightarrow> \<exists>x. py_dict_get d k = Inr x"
  by (cases k) auto

text \<open>
  C4. Default-variant resolution of a node \<open>n\<close> against a table \<open>t\<close> returns \<open>n\<close>
  itself, with no object changed, when \<^verbatim>\<open>n.use_variants\<close> is false, when the table
  is \<^verbatim>\<open>None\<close> or empty, when the table has no entry for \<^verbatim>\<open>n.name\<close>, and when
  the entry has no variant under its own \<^verbatim>\<open>default_variant_id\<close>. Otherwise it
  returns the node definition of the default variant, whose \<^verbatim>\<open>name\<close> it has set to
  \<^verbatim>\<open>n.name\<close>; every other field is the variant's. The two dict lookups return
  (one of these cases applies) when the name of the node and the default variant ids
  of the table are hashable, as strings are.
\<close>

lemma py_dict_get_Inl: "py_dict_get d k = Inl e \<Longrightarrow> \<not> hashable k"
  by (cases k) auto

lemma py_dict_get_SomeD: "py_dict_get d k = Inr (Some x) \<Longrightarrow> x \<in> snd ` set d"
  by (cases k) (auto dest: map_of_SomeD intro: rev_image_eqI)

lemma resolve_variant_returns:
  assumes "hashable (node_name (h n))"
    "\<forall>t e. nvs = Some t \<and> e \<in> snd ` set t \<longrightarrow> hashable (default_variant_id e)"
  shows "resolve_variant n nvs h = (Inr n, h) \<or>
         (\<exists>v::NodeVariant. resolve_variant n nvs h =
            (Inr (variant_node v),
             h(variant_node v := (h (variant_node v))\<lparr>node_name := node_name (h n)\<rparr>)))"
proof (cases nvs)
  case None
  then show ?thesis by (simp add: resolve_variant_def apply_default_node_variant_def)
next
  case (Some t)
  obtain x where x: "py_dict_get t (node_name (h n)) = Inr x"
    using assms(1) py_dict_get_hashable by blast
  show ?thesis
  proof (cases x)
    case None
    with Some x show ?thesis by (simp add: resolve_variant_def apply_default_node_variant_def)
  next
    case e: (Some e)
    with x have "e \<in> snd ` set t" by (auto dest: py_dict_get_SomeD)
    with Some assms(2) have "hashable (default_variant_id e)" by blast
    then obtain y where y: "py_dict_get (variants e) (default_variant_id e) = Inr y"
      using py_dict_get_hashable by blast
    show ?thesis
    proof (cases y)
      case None
      with Some x e y show ?thesis
        by (simp add: resolve_variant_def apply_default_node_variant_def)
    next
      case v: (Some v)
      show ?thesis
      proof (cases "truthy (node_use_variants (h n)) \<and> t \<noteq> []")
        case True
        with Some x e y v have "resolve_variant n nvs h =
            (Inr (variant_node v),
             h(variant_node v := (h (variant_node v))\<lparr>node_name := node_name (h n)\<rparr>))"
          by (simp add: resolve_variant_def apply_default_node_variant_def)
        then have "\<exists>v::NodeVariant. resolve_variant n nvs h =
            (Inr (variant_node v),
             h(variant_node v := (h (variant_node v))\<lparr>node_name := node_name (h n)\<rparr>))" ..
        then show ?thesis by (rule disjI2)
      next
        case False
        with Some have "resolve_variant n nvs h = (Inr n, h)"
          by (auto simp: resolve_variant_def apply_default_node_variant_def)
        then show ?thesis by (rule disjI1)
      qed
    qed
  qed
qed

theorem default_variant_resolution:
  "(\<not> truthy (node_use_variants (h node)) \<longrightarrow> resolve_variant node nvs h = (Inr node, h)) \<and>
   (nvs = None \<or> nvs = Some [] \<longrightarrow> resolve_variant node nvs h = (Inr node, h)) \<and>
   (nvs = Some t \<and> py_dict_get t (node_name (h node)) = Inr None \<longrightarrow>
      resolve_variant node nvs h = (Inr node, h)) \<and>
   (nvs = Some t \<and> py_dict_get t (node_name (h node)) = Inr (Some e) \<and>
    py_dict_get (variants e) (default_variant_id e) = Inr None \<longrightarrow>
      resolve_variant node nvs h = (Inr node, h)) \<and>
   (truthy (node_use_variants (h node)) \<and> nvs = Some t \<and> t \<noteq> [] \<and>
    py_dict_get t (node_name (h node)) = Inr (Some e) \<and>
    py_dict_get (variants e) (default_variant_id e) = Inr (Some v) \<longrightarrow>
      resolve_variant node nvs h =
        (Inr (variant_node v),
         h(variant_node v := (h (variant_node v))\<lparr>node_name := node_name (h node)\<rparr>))) \<and>
   (hashable (node_name (h node)) \<and>
    (\<forall>t e. nvs = Some t \<and> e \<in> snd ` set t \<longrightarrow> hashable (default_variant_id e)) \<longrightarrow>
      (\<exists>r h'. resolve_variant node nvs h = (Inr r, h')))"
proof -
  have "\<exists>r h'. resolve_variant node nvs h = (Inr r, h')"
    if "hashable (node_name (h node))"
      "\<forall>t e. nvs = Some t \<and> e \<in> snd ` set t \<longrightarrow> hashable (default_variant_id e)"
    using resolve_variant_returns [where h = h and n = node and nvs = nvs] that by blast
  then show ?thesis
    by (auto simp: resolve_variant_def apply_default_node_variant_def)
qed

text \<open>
  The theorem at the example flow: node \<^verbatim>\<open>A\<close> resolves to its default variant,
  named \<^verbatim>\<open>A\<close> now, with the variant's tool \<^verbatim>\<open>X\<close>; node \<^verbatim>\<open>B\<close>, which has
  no variants, resolves to itself.
\<close>

theorem default_variant_resolution_witness:
  "fst (resolve_variant 0 example_variants example_heap) = Inr 1 \<and>
   node_name (snd (resolve_variant 0 example_variants example_heap) 1) = PStr ''A'' \<and>
   node_tool (snd (resolve_variant 0 example_variants example_heap) 1) = PStr ''X'' \<and>
   resolve_variant 2 example_variants example_heap = (Inr 2, example_heap)"
proof -
  let ?e = "\<lparr>default_variant_id = PStr ''v0'',
             variants = [(''v0'', \<lparr>variant_node = 1, variant_description = PStr []\<rparr>)]\<rparr>"
  let ?v = "\<lparr>variant_node = 1, variant_description = PStr []\<rparr>"
  have 1: "truthy (node_use_variants (example_heap 0))" "node_name (example_heap 0) = PStr ''A''"
    "node_tool (example_heap 1) = PStr ''X''" "\<not> truthy (node_use_variants (example_heap 2))"
    by (simp_all add: example_heap_def blank_node_def)
  have 2: "example_variants = Some [(''A'', ?e)]" by (simp add: example_variants_def)
  from default_variant_resolution [of example_heap 0 example_variants "[(''A'', ?e)]" ?e ?v] 1 2
  have "resolve_variant 0 example_variants example_heap =
      (Inr 1, example_heap(1 := (example_heap 1)\<lparr>node_name := PStr ''A''\<rparr>))"
    by simp
  moreover from default_variant_resolution [of example_heap 2 example_variants] 1
  have "resolve_variant 2 example_variants example_heap = (Inr 2, example_heap)" by blast
  ultimately show ?thesis using 1 by simp
qed

subsection \<open>What connection-name discovery changes\<close>

lemma only_names_changed_refl: "only_names_changed nvs h h"
  by (simp add: only_names_changed_def)

lemma only_names_changed_trans:
  assumes "only_names_changed nvs h h1" "only_names_changed nvs h1 h2"
  shows "only_names_changed nvs h h2"
  unfolding only_names_changed_def
proof (intro allI conjI impI)
  fix r
  have "(h2 r)\<lparr>node_name := node_name (h r)\<rparr> =
        ((h2 r)\<lparr>node_name := node_name (h1 r)\<rparr>)\<lparr>node_name := node_name (h r)\<rparr>"
    by simp
  also have "\<dots> = (h1 r)\<lparr>node_name := node_name (h r)\<rparr>"
    using assms(2) by (simp add: only_names_changed_def)
  also have "\<dots> = h r" using assms(1) by (simp add: only_names_changed_def)
  finally show "(h2 r)\<lparr>node_name := node_name (h r)\<rparr> = h r" .
next
  fix r assume "r \<notin> variant_nodes nvs"
  with assms show "h2 r = h r" by (simp add: only_names_changed_def)
qed

lemma apply_default_node_variant_frame:
  "only_names_changed nvs h (snd (apply_default_node_variant n nvs h))"
proof -
  have "only_names_changed (Some t) h
          (h(variant_node v := (h (variant_node v))\<lparr>node_name := x\<rparr>))"
    if "py_dict_get t k = Inr (Some e)" "py_dict_get (variants e) k' = Inr (Some v)"
    for t k e k' v x
  proof -
    from that have "e \<in> snd ` set t" "v \<in> snd ` set (variants e)"
      by (auto dest: py_dict_get_SomeD)
    then have "variant_node v \<in> variant_nodes (Some t)"
      by (auto simp: variant_nodes_def)
    then show ?thesis by (auto simp: only_names_changed_def)
  qed
  then show ?thesis
    by (auto simp: apply_default_node_variant_def only_names_changed_refl
        split: option.splits sum.splits)
qed

lemma resolve_variant_frame: "only_names_changed nvs h (snd (resolve_variant n nvs h))"
  by (simp add: resolve_variant_def apply_default_node_variant_frame only_names_changed_refl)

lemma resolve_nodes_frame: "only_names_changed nvs h (snd (resolve_nodes ns nvs h))"
proof (induction ns arbitrary: h)
  case Nil
  show ?case by (simp add: only_names_changed_refl)
next
  case (Cons n ns)
  obtain r1 h1 where 1: "resolve_variant n nvs h = (r1, h1)" by (cases "resolve_variant n nvs h")
  then have f1: "only_names_changed nvs h h1"
    using resolve_variant_frame [of nvs h n] by simp
  show ?case
  proof (cases r1)
    case (Inl e)
    with 1 f1 show ?thesis by simp
  next
    case (Inr m)
    obtain r2 h2 where 2: "resolve_nodes ns nvs h1 = (r2, h2)" by (cases "resolve_nodes ns nvs h1")
    then have "only_names_changed nvs h1 h2" using Cons.IH [of h1] by simp
    with f1 have "only_names_changed nvs h h2" by (rule only_names_changed_trans)
    with 1 2 Inr show ?thesis by (cases r2) simp_all
  qed
qed

lemma snd_get_connection_names:
  "snd (get_connection_names vt ld flow h) =
     snd (resolve_nodes (flow_nodes flow) (flow_node_variants flow) h)"
  by (simp add: get_connection_names_def split: prod.splits sum.splits)

lemma resolve_nodes_no_variants:
  "\<forall>n \<in> set ns. \<not> truthy (node_use_variants (h n)) \<Longrightarrow> resolve_nodes ns nvs h = (Inr ns, h)"
  by (induction ns) (simp_all add: resolve_variant_def)

text \<open>
  C9 (as amended). \<^verbatim>\<open>get_connection_names\<close> does not assign to the flow: its
  node list and its variant table hold the same objects after the call. Of the objects,
  whether the call returns or raises, every field but \<^verbatim>\<open>name\<close> is as before, an
  object that is no variant's node definition is as before, and when no node of the flow
  has \<^verbatim>\<open>use_variants\<close> set every object is as before. The \<^verbatim>\<open>name\<close> of a
  variant's node definition is not kept: resolving a node assigns its name to the node
  definition of its default variant.
\<close>

theorem get_connection_names_frame:
  "(\<forall>r. (snd (get_connection_names vt ld flow h) r)\<lparr>node_name := node_name (h r)\<rparr> = h r) \<and>
   (\<forall>r. r \<notin> variant_nodes (flow_node_variants flow) \<longrightarrow>
      snd (get_connection_names vt ld flow h) r = h r) \<and>
   ((\<forall>n \<in> set (flow_nodes flow). \<not> truthy (node_use_variants (h n))) \<longrightarrow>
      snd (get_connection_names vt ld flow h) = h)"
proof -
  have "only_names_changed (flow_node_variants flow) h (snd (get_connection_names vt ld flow h))"
    unfolding snd_get_connection_names by (rule resolve_nodes_frame)
  moreover have "snd (get_connection_names vt ld flow h) = h"
    if "\<forall>n \<in> set (flow_nodes flow). \<not> truthy (node_use_variants (h n))"
    unfolding snd_get_connection_names using resolve_nodes_no_variants [OF that] by simp
  ultimately show ?thesis by (simp add: only_names_changed_def)
qed

lemma example_resolve:
  "resolve_nodes (flow_nodes example_flow) (flow_node_variants example_flow) example_heap =
     (Inr [1, 2], example_heap(1 := (example_heap 1)\<lparr>node_name := PStr ''A''\<rparr>))"
  by (simp add: example_flow_def example_variants_def example_heap_def blank_node_def
      resolve_variant_def apply_default_node_variant_def)

text \<open>
  The claim as written has the variant table, the name of every variant's node
  definition in particular, equal to its value before the call. In the example flow
  the node definition of the default variant of \<^verbatim>\<open>A\<close> is named \<^verbatim>\<open>A_v0\<close>
  before the call and \<^verbatim>\<open>A\<close> after it.
\<close>

theorem get_connection_names_renames_variant_node:
  "node_name (example_heap 1) = PStr ''A_v0'' \<and>
   node_name (snd (get_connection_names [''string''] (\<lambda>n. None) example_flow example_heap) 1) =
     PStr ''A''"
  unfolding snd_get_connection_names example_resolve
  by (simp add: example_heap_def blank_node_def)

text \<open>
  The theorem at the example flow: the variant's node definition differs from its old
  value in the name only, node \<^verbatim>\<open>B\<close> is as before, and on the flow with node
  \<^verbatim>\<open>B\<close> alone the heap is as before.
\<close>

theorem get_connection_names_frame_witness:
  "(snd (get_connection_names [''string''] (\<lambda>n. None) example_flow example_heap) 1)
      \<lparr>node_name := PStr ''A_v0''\<rparr> = example_heap 1 \<and>
   snd (get_connection_names [''string''] (\<lambda>n. None) example_flow example_heap) 2 = example_heap 2 \<and>
   snd (get_connection_names [''string''] (\<lambda>n. None) (example_flow\<lparr>flow_nodes := [2]\<rparr>)
          example_heap) = example_heap"
proof -
  have 1: "node_name (example_heap 1) = PStr ''A_v0''"
    by (simp add: example_heap_def blank_node_def)
  have 2: "2 \<notin> variant_nodes (flow_node_variants example_flow)"
    by (simp add: variant_nodes_def example_flow_def example_variants_def)
  have 3: "\<forall>n \<in> set (flow_nodes (example_flow\<lparr>flow_nodes := [2]\<rparr>)).
             \<not> truthy (node_use_variants (example_heap n))"
    by (simp add: example_heap_def blank_node_def)
  from get_connection_names_frame [where vt = "[''string'']" and ld = "\<lambda>n. None" and flow = example_flow
        and h = example_heap] 1 2
    get_connection_names_frame [where vt = "[''string'']" and ld = "\<lambda>n. None"
        and flow = "example_flow\<lparr>flow_nodes := [2]\<rparr>" and h = example_heap] 3
  show ?thesis by metis
qed

subsection \<open>Node overrides\<close>

lemma split_dots_nodot: "\<not> has_dot s \<Longrightarrow> split_dots s = [s]"
  by (induction s) (auto simp: has_dot_def)

lemma split_dots_key:
  "\<not> has_dot n \<Longrightarrow> \<not> has_dot f \<Longrightarrow> split_dots (n @ ''.'' @ f) = [n, f]"
  by (induction n) (auto simp: has_dot_def split_dots_nodot)

lemma override_missing:
  assumes "\<not> has_dot n" "\<not> has_dot f" "get_node flow h n = None"
  shows "apply_node_override ext flow (n @ ''.'' @ f, v) h =
           (Inl (ValueError (''Cannot find node '' @ n @ '' in flow ''
                             @ format_value ext (flow_name flow))), h)"
  using assms by (simp add: apply_node_override_def split_dots_key del: append.simps)

lemma override_connection:
  assumes "\<not> has_dot n" "get_node flow h n = Some r" "truthy (node_connection (h r))"
  shows "apply_node_override ext flow (n @ ''.'' @ ''connection'', v) h =
           (Inr (), h(r := (h r)\<lparr>node_connection := v\<rparr>))"
proof -
  have "\<not> has_dot ''connection''" by (simp add: has_dot_def)
  with assms show ?thesis
    by (simp add: apply_node_override_def split_dots_key del: append.simps)
qed

lemma override_input:
  assumes "\<not> has_dot n" "\<not> has_dot f" "get_node flow h n = Some r"
    "\<not> (f = ''connection'' \<and> truthy (node_connection (h r)))"
  shows "apply_node_override ext flow (n @ ''.'' @ f, v) h =
           (Inr (), h(r := (h r)\<lparr>node_inputs :=
              AList.update f (InputAssignment v LITERAL [] []) (node_inputs (h r))\<rparr>))"
  using assms by (auto simp: apply_node_override_def split_dots_key simp del: append.simps)

lemma get_node_mem: "get_node flow h n = Some r \<Longrightarrow> r \<in> set (flow_nodes flow)"
  by (auto simp: get_node_def find_Some_iff)

lemma get_node_names_kept:
  "names_kept flow h h' \<Longrightarrow> get_node flow h' n = get_node flow h n"
  by (simp add: get_node_def names_kept_def cong: find_cong)

lemma names_kept_refl: "names_kept flow h h"
  by (simp add: names_kept_def)

lemma names_kept_trans: "names_kept flow h h1 \<Longrightarrow> names_kept flow h1 h2 \<Longrightarrow> names_kept flow h h2"
  by (simp add: names_kept_def)

lemma override_names_kept: "names_kept flow h (snd (apply_node_override ext flow item h))"
  by (auto simp: apply_node_override_def names_kept_def dest: get_node_mem
      split: list.splits option.splits)

lemma loop_names_kept: "names_kept flow h (snd (node_overrides_loop ext flow items h))"
proof (induction items arbitrary: h)
  case Nil
  show ?case by (simp add: names_kept_refl)
next
  case (Cons item items)
  obtain r1 h1 where 1: "apply_node_override ext flow item h = (r1, h1)"
    by (cases "apply_node_override ext flow item h")
  then have f1: "names_kept flow h h1" using override_names_kept [of flow h ext item] by simp
  show ?case
  proof (cases r1)
    case (Inl e)
    with 1 f1 show ?thesis by simp
  next
    case (Inr u)
    from Cons.IH [of h1] f1 have "names_kept flow h (snd (node_overrides_loop ext flow items h1))"
      by (rule names_kept_trans [rotated])
    with 1 Inr show ?thesis by simp
  qed
qed

lemma snd_apply_node_overrides:
  "snd (apply_node_overrides ext flow items h) = snd (node_overrides_loop ext flow items h)"
  by (auto simp: apply_node_overrides_def split: prod.splits sum.splits)

lemma override_succeeds:
  assumes "targets_node flow h item"
  shows "\<exists>h1. apply_node_override ext flow item h = (Inr (), h1)"
proof -
  from assms obtain n f r where k: "fst item = n @ ''.'' @ f" "\<not> has_dot n" "\<not> has_dot f"
    "get_node flow h n = Some r"
    by (auto simp: targets_node_def)
  then have "split_dots (fst item) = [n, f]" by (simp add: split_dots_key del: append.simps)
  with k(4) show ?thesis by (simp add: apply_node_override_def)
qed

lemma targets_node_names_kept:
  "names_kept flow h h' \<Longrightarrow> targets_node flow h' item = targets_node flow h item"
  by (simp add: targets_node_def get_node_names_kept)

lemma loop_succeeds:
  "list_all (targets_node flow h) items \<Longrightarrow>
     \<exists>h'. node_overrides_loop ext flow items h = (Inr (), h')"
proof (induction items arbitrary: h)
  case Nil
  show ?case by simp
next
  case (Cons item items)
  then obtain h1 where 1: "apply_node_override ext flow item h = (Inr (), h1)"
    using override_succeeds [of flow h item ext] by auto
  then have "names_kept flow h h1" using override_names_kept [of flow h ext item] by simp
  with Cons.prems have "list_all (targets_node flow h1) items"
    by (simp add: targets_node_names_kept list_all_iff)
  from Cons.IH [OF this] 1 show ?case by simp
qed

lemma get_node_Some: "get_node flow h n = Some r \<Longrightarrow> r \<in> set (flow_nodes flow) \<and> node_name (h r) = PStr n"
  by (auto simp: get_node_def find_Some_iff)

lemma get_node_None:
  "(get_node flow h n = None) = (\<forall>r \<in> set (flow_nodes flow). node_name (h r) \<noteq> PStr n)"
  by (auto simp: get_node_def find_None_iff)

lemma overrides_step_error:
  "apply_node_override ext flow item h = (Inl e, h1) \<Longrightarrow>
     apply_node_overrides ext flow (item # rest) h = (Inl e, h1)"
  by (simp add: apply_node_overrides_def)

lemma overrides_step_ok:
  "apply_node_override ext flow item h = (Inr (), h1) \<Longrightarrow>
     apply_node_overrides ext flow (item # rest) h =
       (if rest = [] then (Inr flow, h1) else apply_node_overrides ext flow rest h1)"
  by (simp add: apply_node_overrides_def)

lemma overrides_returns_self:
  "fst (apply_node_overrides ext flow items h) = Inr flow' \<Longrightarrow> flow' = flow"
  by (auto simp: apply_node_overrides_def split: if_splits prod.splits sum.splits)

lemma overrides_succeed:
  assumes "list_all (targets_node flow h) items"
  shows "\<exists>h'. apply_node_overrides ext flow items h = (Inr flow, h')"
  using loop_succeeds [OF assms, of ext] by (auto simp: apply_node_overrides_def)

text \<open>
  C6. For an item whose key is \<^verbatim>\<open><node_name>.<field>\<close>, the loop body of
  \<^verbatim>\<open>_apply_node_overrides\<close> locates the first node of the flow with that name and
  raises \<^verbatim>\<open>ValueError\<close> when there is none; when the field is
  \<^verbatim>\<open>connection\<close> and the \<^verbatim>\<open>connection\<close> of the node is set (true), it
  assigns the value to \<^verbatim>\<open>connection\<close>; in every other case it sets the input of
  that name to a literal \<^verbatim>\<open>InputAssignment\<close> holding the value, replacing the
  input or adding it. The method runs the body for the items in order and stops at the
  first exception; it succeeds when every item names a node of the flow. It assigns to
  the node objects in place (their names, and the objects outside the flow, are as
  before) and returns the flow it was called on.
\<close>

theorem apply_node_overrides_behaviour:
  "(\<not> has_dot n \<and> \<not> has_dot f \<and> get_node flow h n = None \<longrightarrow>
      apply_node_override ext flow (n @ ''.'' @ f, v) h =
        (Inl (ValueError (''Cannot find node '' @ n @ '' in flow ''
                          @ format_value ext (flow_name flow))), h)) \<and>
   (\<not> has_dot n \<and> get_node flow h n = Some r \<and> truthy (node_connection (h r)) \<longrightarrow>
      apply_node_override ext flow (n @ ''.'' @ ''connection'', v) h =
        (Inr (), h(r := (h r)\<lparr>node_connection := v\<rparr>))) \<and>
   (\<not> has_dot n \<and> \<not> has_dot f \<and> get_node flow h n = Some r \<and>
    \<not> (f = ''connection'' \<and> truthy (node_connection (h r))) \<longrightarrow>
      apply_node_override ext flow (n @ ''.'' @ f, v) h =
        (Inr (), h(r := (h r)\<lparr>node_inputs :=
           AList.update f (InputAssignment v LITERAL [] []) (node_inputs (h r))\<rparr>))) \<and>
   (get_node flow h n = Some r \<longrightarrow> r \<in> set (flow_nodes flow) \<and> node_name (h r) = PStr n) \<and>
   (get_node flow h n = None) = (\<forall>r \<in> set (flow_nodes flow). node_name (h r) \<noteq> PStr n) \<and>
   apply_node_overrides ext flow [] h = (Inr flow, h) \<and>
   (apply_node_override ext flow item h = (Inl e, h1) \<longrightarrow>
      apply_node_overrides ext flow (item # rest) h = (Inl e, h1)) \<and>
   (apply_node_override ext flow item h = (Inr (), h1) \<longrightarrow>
      apply_node_overrides ext flow (item # rest) h =
        (if rest = [] then (Inr flow, h1) else apply_node_overrides ext flow rest h1)) \<and>
   (list_all (targets_node flow h) items \<longrightarrow>
      (\<exists>h'. apply_node_overrides ext flow items h = (Inr flow, h'))) \<and>
   (fst (apply_node_overrides ext flow items h) = Inr flow' \<longrightarrow> flow' = flow) \<and>
   names_kept flow h (snd (apply_node_overrides ext flow items h))"
proof -
  have "apply_node_overrides ext flow [] h = (Inr flow, h)"
    by (simp add: apply_node_overrides_def)
  moreover have "names_kept flow h (snd (apply_node_overrides ext flow items h))"
    unfolding snd_apply_node_overrides by (rule loop_names_kept)
  ultimately show ?thesis
    using override_missing [of n f flow h ext v] override_connection [of n flow h r ext v]
      override_input [of n f flow h r ext v] get_node_Some [of flow h n r] get_node_None [of flow h n]
      overrides_step_error [of ext flow item h e h1 rest]
      overrides_step_ok [of ext flow item h h1 rest]
      overrides_succeed [of flow h items ext] overrides_returns_self [of ext flow items h flow']
    by blast
qed

lemma example_get_node:
  "get_node example_flow example_heap ''A'' = Some 0"
  "get_node example_flow example_heap ''B'' = Some 2"
  "get_node example_flow example_heap ''C'' = None"
  by (simp_all add: get_node_def example_flow_def example_heap_def blank_node_def)

text \<open>
  The theorem at the example flow: \<^verbatim>\<open>B.connection\<close> overwrites the connection of
  \<^verbatim>\<open>B\<close>, \<^verbatim>\<open>A.x\<close> gives \<^verbatim>\<open>A\<close> the literal input \<^verbatim>\<open>x\<close>, and
  \<^verbatim>\<open>C.x\<close> raises.
\<close>

theorem apply_node_overrides_behaviour_witness:
  "apply_node_overrides no_connections example_flow [(''B.connection'', PStr ''newconn'')]
     example_heap =
     (Inr example_flow, example_heap(2 := (example_heap 2)\<lparr>node_connection := PStr ''newconn''\<rparr>)) \<and>
   apply_node_overrides no_connections example_flow [(''A.x'', PStr ''v'')] example_heap =
     (Inr example_flow, example_heap(0 := (example_heap 0)\<lparr>node_inputs :=
        [(''x'', InputAssignment (PStr ''v'') LITERAL [] [])]\<rparr>)) \<and>
   apply_node_overrides no_connections example_flow [(''C.x'', PStr ''v'')] example_heap =
     (Inl (ValueError ''Cannot find node C in flow f''), example_heap)"
proof -
  have nd: "\<not> has_dot ''A''" "\<not> has_dot ''B''" "\<not> has_dot ''C''" "\<not> has_dot ''x''"
    by (simp_all add: has_dot_def)
  have tr: "truthy (node_connection (example_heap 2))" "node_inputs (example_heap 0) = []"
    by (simp_all add: example_heap_def blank_node_def)
  have fn: "format_value no_connections (flow_name example_flow) = ''f''"
    by (simp add: example_flow_def)
  note t = apply_node_overrides_behaviour [where ext = no_connections and flow = example_flow and h = example_heap]
  have 1: "apply_node_override no_connections example_flow (''B.connection'', PStr ''newconn'')
      example_heap =
      (Inr (), example_heap(2 := (example_heap 2)\<lparr>node_connection := PStr ''newconn''\<rparr>))"
    using t [where n = "''B''" and r = 2 and v = "PStr ''newconn''"] nd tr example_get_node
    by simp
  have 2: "apply_node_override no_connections example_flow (''A.x'', PStr ''v'') example_heap =
      (Inr (), example_heap(0 := (example_heap 0)\<lparr>node_inputs :=
        [(''x'', InputAssignment (PStr ''v'') LITERAL [] [])]\<rparr>))"
    using t [where n = "''A''" and f = "''x''" and r = 0 and v = "PStr ''v''"] nd tr example_get_node
    by simp
  have 3: "apply_node_override no_connections example_flow (''C.x'', PStr ''v'') example_heap =
      (Inl (ValueError ''Cannot find node C in flow f''), example_heap)"
    using t [where n = "''C''" and f = "''x''" and v = "PStr ''v''"] nd fn example_get_node
    by simp
  from 1 t [where item = "(''B.connection'', PStr ''newconn'')" and rest = "[]"
      and ?h1.0 = "example_heap(2 := (example_heap 2)\<lparr>node_connection := PStr ''newconn''\<rparr>)"]
  have a: "apply_node_overrides no_connections example_flow [(''B.connection'', PStr ''newconn'')]
     example_heap =
     (Inr example_flow, example_heap(2 := (example_heap 2)\<lparr>node_connection := PStr ''newconn''\<rparr>))"
    by simp
  from 2 t [where item = "(''A.x'', PStr ''v'')" and rest = "[]"
      and ?h1.0 = "example_heap(0 := (example_heap 0)\<lparr>node_inputs :=
        [(''x'', InputAssignment (PStr ''v'') LITERAL [] [])]\<rparr>)"]
  have b: "apply_node_overrides no_connections example_flow [(''A.x'', PStr ''v'')] example_heap =
     (Inr example_flow, example_heap(0 := (example_heap 0)\<lparr>node_inputs :=
        [(''x'', InputAssignment (PStr ''v'') LITERAL [] [])]\<rparr>))"
    by simp
  from 3 t [where item = "(''C.x'', PStr ''v'')" and rest = "[]"
      and e = "ValueError ''Cannot find node C in flow f''" and ?h1.0 = example_heap]
  have c: "apply_node_overrides no_connections example_flow [(''C.x'', PStr ''v'')] example_heap =
     (Inl (ValueError ''Cannot find node C in flow f''), example_heap)"
    by simp
  from a b c show ?thesis by blast
qed

subsection \<open>Connection names\<close>

















end
